theory Spec2Isabelle
  imports Complex_Main "HOL-Library.List_Lexorder" "HOL-Library.Product_Lexorder"
    "HOL-Library.Char_ord"
begin


section \<open>Go strings\<close>

text \<open>
  A Go string is a sequence of bytes; it is modelled as a \<open>string\<close> (a list of 8-bit
  characters), so \<open>length\<close> is Go's \<open>len\<close> and \<open>take\<close>/\<open>drop\<close> are Go's slices
  \<open>s[:n]\<close> and \<open>s[n:]\<close>.

  The functions of package \<open>strings\<close> that the program calls are modelled on bytes.
  \<open>strings.TrimSpace\<close> and \<open>strings.Fields\<close> work on the white space of
  \<open>unicode.IsSpace\<close>: the code points U+0009..U+000D, U+0020, U+0085, U+00A0, U+1680,
  U+2000..U+200A, U+2028, U+2029, U+202F, U+205F and U+3000. \<open>spaceEncodings\<close> lists
  their UTF-8 encodings. A position of a string starts a white space rune exactly when
  one of these encodings is a prefix of the rest of the string, and a string ends in a
  white space rune exactly when one of them is a suffix: the first byte of each encoding
  is never a continuation byte, so Go's decoder reaches every such position, and its
  backwards decoder accepts exactly the well-formed encoding at the end.
\<close>

definition spaceEncodings :: "string list" where
  "spaceEncodings =
    [[CHR 0x09], [CHR 0x0A], [CHR 0x0B], [CHR 0x0C], [CHR 0x0D], [CHR 0x20],
     [CHR 0xC2, CHR 0x85], [CHR 0xC2, CHR 0xA0],
     [CHR 0xE1, CHR 0x9A, CHR 0x80],
     [CHR 0xE2, CHR 0x80, CHR 0x80], [CHR 0xE2, CHR 0x80, CHR 0x81],
     [CHR 0xE2, CHR 0x80, CHR 0x82], [CHR 0xE2, CHR 0x80, CHR 0x83],
     [CHR 0xE2, CHR 0x80, CHR 0x84], [CHR 0xE2, CHR 0x80, CHR 0x85],
     [CHR 0xE2, CHR 0x80, CHR 0x86], [CHR 0xE2, CHR 0x80, CHR 0x87],
     [CHR 0xE2, CHR 0x80, CHR 0x88], [CHR 0xE2, CHR 0x80, CHR 0x89],
     [CHR 0xE2, CHR 0x80, CHR 0x8A],
     [CHR 0xE2, CHR 0x80, CHR 0xA8], [CHR 0xE2, CHR 0x80, CHR 0xA9],
     [CHR 0xE2, CHR 0x80, CHR 0xAF],
     [CHR 0xE2, CHR 0x81, CHR 0x9F],
     [CHR 0xE3, CHR 0x80, CHR 0x80]]"

definition HasPrefix :: "string \<Rightarrow> string \<Rightarrow> bool" where
  "HasPrefix s p = (take (length p) s = p)"

definition HasSuffix :: "string \<Rightarrow> string \<Rightarrow> bool" where
  "HasSuffix s p = (length p \<le> length s \<and> drop (length s - length p) s = p)"

text \<open>The width in bytes of the white space rune at the head (at the end) of a string;
  0 when there is none.\<close>

definition spaceWidth :: "string \<Rightarrow> nat" where
  "spaceWidth s = (case find (HasPrefix s) spaceEncodings of None \<Rightarrow> 0 | Some e \<Rightarrow> length e)"

definition spaceWidthLast :: "string \<Rightarrow> nat" where
  "spaceWidthLast s = (case find (HasSuffix s) spaceEncodings of None \<Rightarrow> 0 | Some e \<Rightarrow> length e)"

function TrimLeftSpace :: "string \<Rightarrow> string" where
  "TrimLeftSpace s = (if spaceWidth s = 0 then s else TrimLeftSpace (drop (spaceWidth s) s))"
  by pat_completeness auto
termination
proof (relation "measure length")
  show "wf (measure length)" by simp
next
  fix s :: string
  assume "spaceWidth s \<noteq> 0"
  moreover have "spaceWidth [] = 0"
    by (simp add: spaceWidth_def spaceEncodings_def HasPrefix_def)
  ultimately have "s \<noteq> []" by auto
  with \<open>spaceWidth s \<noteq> 0\<close> show "(drop (spaceWidth s) s, s) \<in> measure length"
    by simp
qed

function TrimRightSpace :: "string \<Rightarrow> string" where
  "TrimRightSpace s =
     (if spaceWidthLast s = 0 then s else TrimRightSpace (take (length s - spaceWidthLast s) s))"
  by pat_completeness auto
termination
proof (relation "measure length")
  show "wf (measure length)" by simp
next
  fix s :: string
  assume "spaceWidthLast s \<noteq> 0"
  moreover have "spaceWidthLast [] = 0"
    by (simp add: spaceWidthLast_def spaceEncodings_def HasSuffix_def)
  ultimately have "s \<noteq> []" by auto
  with \<open>spaceWidthLast s \<noteq> 0\<close> show "(take (length s - spaceWidthLast s) s, s) \<in> measure length"
    by simp
qed

text \<open>\<open>strings.TrimSpace\<close>: leading white space runes are cut first, then trailing ones.\<close>

declare TrimLeftSpace.simps [simp del] TrimRightSpace.simps [simp del]

definition TrimSpace :: "string \<Rightarrow> string" where
  "TrimSpace s = TrimRightSpace (TrimLeftSpace s)"

text \<open>
  \<open>strings.Fields\<close>: the maximal runs of bytes between white space runes. Go walks the
  string rune by rune and records the span of each field; the model walks byte by byte
  and collects the bytes of the current field in \<open>cur\<close>. Inside a well-formed rune of
  several bytes the later bytes are continuation bytes, which start no encoding of
  \<open>spaceEncodings\<close>, so both walks find the same fields.
\<close>

function FieldsFunc :: "string \<Rightarrow> string \<Rightarrow> string list" where
  "FieldsFunc cur [] = (if cur = [] then [] else [cur])"
| "FieldsFunc cur (c # s) =
     (if spaceWidth (c # s) = 0 then FieldsFunc (cur @ [c]) s
      else (if cur = [] then [] else [cur]) @ FieldsFunc [] (drop (spaceWidth (c # s)) (c # s)))"
  by pat_completeness auto
termination
  by (relation "measure (\<lambda>(cur, s). length s)") auto

definition Fields :: "string \<Rightarrow> string list" where
  "Fields s = FieldsFunc [] s"

text \<open>\<open>strings.Join\<close>.\<close>

fun Join :: "string list \<Rightarrow> string \<Rightarrow> string" where
  "Join [] sep = []"
| "Join [x] sep = x"
| "Join (x # y # ys) sep = x @ sep @ Join (y # ys) sep"

text \<open>\<open>strings.Index\<close> returns the byte offset of the first occurrence, or -1; the
  model returns \<open>None\<close> for -1. \<open>strings.Contains\<close> is \<open>Index \<ge> 0\<close>.\<close>

fun Index :: "string \<Rightarrow> string \<Rightarrow> nat option" where
  "Index [] p = (if p = [] then Some 0 else None)"
| "Index (c # s) p = (if HasPrefix (c # s) p then Some 0 else map_option Suc (Index s p))"

definition Contains :: "string \<Rightarrow> string \<Rightarrow> bool" where
  "Contains s p = (Index s p \<noteq> None)"

section \<open>Content normalizer\<close>

text \<open>
  \<open>SlackHandler.cleanMessageText\<close> runs two loops of the same shape, one for the opener
  \<open><@\<close> and one for \<open><#\<close>: while the text contains the opener, cut from its first
  occurrence to the first \<open>>\<close> after it; stop when there is no such \<open>>\<close>.
  \<open>stripTokens\<close> is that loop, with the opener as its parameter.
\<close>

function stripTokens :: "string \<Rightarrow> string \<Rightarrow> string" where
  "stripTokens opener text =
     (case Index text opener of
        None \<Rightarrow> text
      | Some start \<Rightarrow>
          (case Index (drop start text) ''>'' of
             None \<Rightarrow> text
           | Some e \<Rightarrow> stripTokens opener (take start text @ drop (start + e + 1) text)))"
  by pat_completeness auto
termination
proof (relation "measure (\<lambda>(opener, text). length text)")
  show "wf (measure (\<lambda>(opener, text). length text))" by simp
next
  fix opener t :: string and start e :: nat
  assume "Index t opener = Some start" and e: "Index (drop start t) ''>'' = Some e"
  have bound: "Index s ''>'' = Some i \<Longrightarrow> i < length s" for s i
  proof (induction s arbitrary: i)
    case Nil
    then show ?case by simp
  next
    case (Cons c s)
    then show ?case by (auto split: if_splits)
  qed
  from bound [OF e] have "start + e < length t" by simp
  then show "((opener, take start t @ drop (start + e + 1) t), (opener, t))
      \<in> measure (\<lambda>(opener, text). length text)"
    by simp
qed

declare stripTokens.simps [simp del]

definition cleanMessageText :: "string \<Rightarrow> string" where
  "cleanMessageText text = TrimSpace (stripTokens ''<#'' (stripTokens ''<@'' text))"

section \<open>Chunker\<close>

definition maxWordsPerChunk :: nat where
  "maxWordsPerChunk = 7000"

text \<open>The loop \<open>for i := 0; i < len(words); i += maxWordsPerChunk\<close> of
  \<open>EmbeddingProcessor.chunkContent\<close>; \<open>words[i:end]\<close> is \<open>take (end - i) (drop i words)\<close>.\<close>

function chunkLoop :: "string list \<Rightarrow> nat \<Rightarrow> string list" where
  "chunkLoop words i =
     (if i < length words then
        (let end' = (if i + maxWordsPerChunk > length words then length words
                     else i + maxWordsPerChunk)
         in Join (take (end' - i) (drop i words)) '' '' # chunkLoop words (i + maxWordsPerChunk))
      else [])"
  by pat_completeness auto
termination
  by (relation "measure (\<lambda>(words, i). length words - i)") (auto simp: maxWordsPerChunk_def)

declare chunkLoop.simps [simp del]

definition chunkContent :: "string \<Rightarrow> string list" where
  "chunkContent content =
     (let words = Fields content
      in if length words \<le> maxWordsPerChunk then [content] else chunkLoop words 0)"

text \<open>A word in which no white space rune starts at any position.\<close>

definition noSpaceIn :: "string \<Rightarrow> bool" where
  "noSpaceIn w = (\<forall>p < length w. spaceWidth (drop p w) = 0)"

section \<open>More of the Go library\<close>

text \<open>
  \<open>strings.ToLower\<close> maps every rune through \<open>unicode.ToLower\<close>. A rune below U+0080 is
  one byte and is mapped by the ASCII rule (\<open>A..Z\<close> to \<open>a..z\<close>). Every other rune, and
  every byte that is no well-formed encoding, consists of bytes \<open>\<ge> 0x80\<close> only, so a
  maximal run of such bytes is mapped on its own; what Go's Unicode tables make of such
  a run is the parameter \<open>tbl\<close>.
\<close>

definition isASCII :: "char \<Rightarrow> bool" where
  "isASCII c = ((of_char c :: nat) < 128)"

definition lowerASCII :: "char \<Rightarrow> char" where
  "lowerASCII c =
     (if (65::nat) \<le> of_char c \<and> (of_char c :: nat) \<le> 90 then char_of (of_char c + (32::nat)) else c)"

function ToLower :: "(string \<Rightarrow> string) \<Rightarrow> string \<Rightarrow> string" where
  "ToLower tbl [] = []"
| "ToLower tbl (c # s) =
     (if isASCII c then lowerASCII c # ToLower tbl s
      else tbl (takeWhile (\<lambda>d. \<not> isASCII d) (c # s))
             @ ToLower tbl (dropWhile (\<lambda>d. \<not> isASCII d) (c # s)))"
  by pat_completeness auto
termination
  by (relation "measure (\<lambda>(tbl, s). length s)") (auto simp: le_imp_less_Suc length_dropWhile_le)

text \<open>\<open>strings.LastIndex\<close>, again with \<open>None\<close> for -1.\<close>

definition LastIndex :: "string \<Rightarrow> string \<Rightarrow> nat option" where
  "LastIndex s p =
     (case Index (rev s) (rev p) of None \<Rightarrow> None | Some j \<Rightarrow> Some (length s - j - length p))"

text \<open>\<open>strconv.ParseInt(s, 10, 64)\<close>: an optional sign, then decimal digits only; a value
  outside the range of \<open>int64\<close> is an error.\<close>

definition isDigit :: "char \<Rightarrow> bool" where
  "isDigit c = ((48::nat) \<le> of_char c \<and> (of_char c :: nat) \<le> 57)"

definition digitsValue :: "string \<Rightarrow> int" where
  "digitsValue ds = foldl (\<lambda>acc c. acc * 10 + (int (of_char c) - 48)) 0 ds"

definition ParseInt :: "string \<Rightarrow> int option" where
  "ParseInt s =
     (case s of
        [] \<Rightarrow> None
      | c # r \<Rightarrow>
          (let neg = (c = CHR ''-'');
               ds = (if c = CHR ''+'' \<or> c = CHR ''-'' then r else s)
           in if ds = [] \<or> \<not> list_all isDigit ds then None
              else if neg then
                (if digitsValue ds \<le> 2 ^ 63 then Some (- digitsValue ds) else None)
              else
                (if digitsValue ds < 2 ^ 63 then Some (digitsValue ds) else None)))"

text \<open>\<open>fmt.Sprintf("%d", n)\<close> for a non-negative \<open>n\<close>.\<close>

function itoa :: "nat \<Rightarrow> string" where
  "itoa n = (if n < 10 then [char_of (48 + n)] else itoa (n div 10) @ [char_of (48 + n mod 10)])"
  by pat_completeness auto
termination
  by (relation "measure id") auto

declare itoa.simps [simp del]

section \<open>Errors, vectors and the environment\<close>

text \<open>
  A Go \<open>error\<close> is a value: the failure of a database statement, a violated primary key,
  a vector that has not the dimension of its column (\<open>expected 1536 dimensions, not 1\<close>),
  a failed call of the OpenAI API, an error made with \<open>fmt.Errorf\<close> from a text, and an
  error wrapped with \<open>%w\<close> under a text.
\<close>

type_synonym embedding = "real list"

datatype statement =
    UpsertMessage string string
  | DeleteThreadEmbeddings string
  | SelectThreadsWithoutEmbeddings
  | SelectMessagesInThread string
  | UpsertThreadEmbedding string nat embedding
  | SelectSimilarThreads embedding
  | SelectMessagesOfThreads "string list"
  | UpsertDocument string
  | UpdateDocumentEmbedding string embedding
  | SelectSimilarDocuments embedding
  | SelectDocumentsWithoutEmbeddings

datatype error =
    StatementFailed statement
  | PrimaryKeyViolation
  | DimensionMismatch nat nat
  | ApiCallFailed
  | Errorf string
  | Wrapped string error

text \<open>
  Vectors of \<open>float32\<close> and the \<open>float64\<close> similarity scores are modelled as real numbers.
  \<open>cosine_distance\<close> is the operator \<open><=>\<close> of the pgvector extension, which the SQL of
  the program calls; pgvector is not part of the repository.
\<close>

text \<open>
  The vector columns \<open>documents.embedding\<close> and \<open>slack_thread_embeddings.embedding\<close> are
  declared \<open>vector(1536)\<close>: a statement that writes a vector of another length into one of
  them fails.
\<close>

definition embeddingDimension :: nat where
  "embeddingDimension = 1536"

definition dot :: "embedding \<Rightarrow> embedding \<Rightarrow> real" where
  "dot a b = sum_list (map2 (*) a b)"

definition cosine_distance :: "embedding \<Rightarrow> embedding \<Rightarrow> real" where
  "cosine_distance a b = 1 - dot a b / (sqrt (dot a a) * sqrt (dot b b))"

text \<open>
  What the program receives from outside, one record per call:
  \<^item> \<open>unicodeLower\<close>: the Unicode tables behind \<open>strings.ToLower\<close> (see \<open>ToLower\<close>);
  \<^item> \<open>localTimeFormat n\<close>: \<open>time.Unix(n, 0).Format("January 2, 2006, 3:04PM")\<close>, which
    depends on the time zone of the process;
  \<^item> \<open>sha256hex\<close>: \<open>fmt.Sprintf("%x", sha256.Sum256([]byte(content)))\<close>;
  \<^item> \<open>formatFloat2\<close>: \<open>fmt.Sprintf("%.2f", x)\<close>;
  \<^item> \<open>createEmbeddings text\<close>: the answer of the OpenAI embeddings API to a request with
    the one input \<open>text\<close>: \<open>None\<close> for an error, otherwise the vectors of \<open>resp.Data\<close>;
  \<^item> \<open>createChatCompletion system user\<close>: the answer of the chat completion API:
    \<open>None\<close> for an error, otherwise the message contents of \<open>resp.Choices\<close>;
  \<^item> \<open>dbRefuses st\<close>: the database fails the statement \<open>st\<close> (connection lost, timeout,
    ...);
  \<^item> \<open>dbNow\<close>: the database's \<open>NOW()\<close>; \<open>dbRandomUUID\<close>: its \<open>gen_random_uuid()\<close>;
  \<^item> \<open>mapOrder keys\<close>: the order in which a Go \<open>range\<close> visits the keys of a map (the
    language leaves it unspecified).
\<close>

record env =
  unicodeLower :: "string \<Rightarrow> string"
  localTimeFormat :: "int \<Rightarrow> string"
  sha256hex :: "string \<Rightarrow> string"
  formatFloat2 :: "real \<Rightarrow> string"
  createEmbeddings :: "string \<Rightarrow> embedding list option"
  createChatCompletion :: "string \<Rightarrow> string \<Rightarrow> string list option"
  dbRefuses :: "statement \<Rightarrow> bool"
  dbNow :: nat
  dbRandomUUID :: nat
  mapOrder :: "string list \<Rightarrow> string list"

section \<open>Storage\<close>

subsection \<open>Slack messages and thread embeddings\<close>

text \<open>
  \<open>SlackMessage\<close> is the Go struct, and also a row of table \<open>slack_messages\<close>, whose
  columns are its fields. Identifiers of type UUID and instants are natural numbers.
  \<open>thread_embedding\<close> is a row of table \<open>slack_thread_embeddings\<close>; its vector column
  may be \<open>NULL\<close>. \<open>SlackStorage\<close> is the state of the two tables. The unique index
  \<open>idx_slack_unique_message\<close> on \<open>(channel_id, message_timestamp)\<close> and the constraint
  \<open>UNIQUE(thread_id, chunk_index)\<close> are what the \<open>ON CONFLICT\<close> clauses test.
\<close>

record SlackMessage =
  ID :: nat
  ChannelID :: string
  ThreadID :: string
  MessageTimestamp :: string
  UserID :: string
  UserName :: string
  Content :: string
  ContentHash :: string
  ClientMsgID :: string
  IsThreadRoot :: bool
  CreatedAt :: nat
  UpdatedAt :: nat

record thread_embedding =
  te_id :: nat
  te_thread_id :: string
  te_chunk_index :: nat
  te_content_hash :: string
  te_embedding :: "embedding option"
  te_created_at :: nat

record SlackStorage =
  slack_messages :: "SlackMessage list"
  slack_thread_embeddings :: "thread_embedding list"

definition sameMessage :: "SlackMessage \<Rightarrow> SlackMessage \<Rightarrow> bool" where
  "sameMessage a b = (ChannelID a = ChannelID b \<and> MessageTimestamp a = MessageTimestamp b)"

text \<open>
  \<open>SlackStorage.StoreMessage\<close>. The \<open>INSERT ... ON CONFLICT (channel_id,
  message_timestamp) DO UPDATE\<close> either adds a row (\<open>xmax = 0\<close>, so \<open>was_inserted\<close>) or
  rewrites \<open>content\<close>, \<open>content_hash\<close> and \<open>updated_at\<close> of the row in conflict. The
  returned message takes \<open>id\<close>, \<open>created_at\<close> and \<open>updated_at\<close> from the row and
  everything else from the argument. After an update the thread embeddings of the
  argument's \<open>ThreadID\<close> are deleted; a failure of that \<open>DELETE\<close> is logged only.
\<close>

definition StoreMessage ::
    "env \<Rightarrow> SlackStorage \<Rightarrow> SlackMessage \<Rightarrow> (error + SlackMessage \<times> bool) \<times> SlackStorage" where
  "StoreMessage e s msg0 =
     (let msg = msg0\<lparr>ContentHash := sha256hex e (Content msg0)\<rparr> in
      if dbRefuses e (UpsertMessage (ChannelID msg) (MessageTimestamp msg)) then
        (Inl (Wrapped ''failed to store message''
               (StatementFailed (UpsertMessage (ChannelID msg) (MessageTimestamp msg)))), s)
      else
        (case find (sameMessage msg) (slack_messages s) of
           None \<Rightarrow>
             if dbRandomUUID e \<in> set (map ID (slack_messages s)) then
               (Inl (Wrapped ''failed to store message'' PrimaryKeyViolation), s)
             else
               (let stored = msg\<lparr>ID := dbRandomUUID e, CreatedAt := dbNow e, UpdatedAt := dbNow e\<rparr>
                in (Inr (stored, True), s\<lparr>slack_messages := slack_messages s @ [stored]\<rparr>))
         | Some r \<Rightarrow>
             (let stored = msg\<lparr>ID := ID r, CreatedAt := CreatedAt r, UpdatedAt := dbNow e\<rparr>;
                  s1 = s\<lparr>slack_messages :=
                         map (\<lambda>x. if sameMessage msg x
                                   then x\<lparr>Content := Content msg, ContentHash := ContentHash msg,
                                          UpdatedAt := dbNow e\<rparr>
                                   else x) (slack_messages s)\<rparr>;
                  s2 = (if dbRefuses e (DeleteThreadEmbeddings (ThreadID stored)) then s1
                        else s1\<lparr>slack_thread_embeddings :=
                               filter (\<lambda>t. te_thread_id t \<noteq> ThreadID stored)
                                 (slack_thread_embeddings s1)\<rparr>)
              in (Inr (stored, False), s2))))"

text \<open>
  \<open>GetThreadsWithoutEmbeddings\<close>: the distinct \<open>thread_id\<close>s of messages that join with
  no embedding row, by the creation time of the thread's oldest message, at most
  \<open>limit\<close> of them. \<open>ORDER BY\<close> on equal keys is modelled stable (the database may return
  such rows in any order); \<open>ORDER BY\<close> on a text column compares bytes.
\<close>

definition threadCreatedAt :: "SlackStorage \<Rightarrow> string \<Rightarrow> nat" where
  "threadCreatedAt s tid =
     (case map CreatedAt (filter (\<lambda>m. ThreadID m = tid) (slack_messages s)) of
        [] \<Rightarrow> 0 | t # ts \<Rightarrow> fold min ts t)"

definition GetThreadsWithoutEmbeddings ::
    "env \<Rightarrow> SlackStorage \<Rightarrow> nat \<Rightarrow> error + string list" where
  "GetThreadsWithoutEmbeddings e s limit =
     (if dbRefuses e SelectThreadsWithoutEmbeddings then
        Inl (Wrapped ''failed to get threads without embeddings''
              (StatementFailed SelectThreadsWithoutEmbeddings))
      else
        Inr (take limit (sort_key (threadCreatedAt s)
               (remdups (filter (\<lambda>tid. tid \<notin> set (map te_thread_id (slack_thread_embeddings s)))
                  (map ThreadID (slack_messages s)))))))"

definition GetMessagesInThread ::
    "env \<Rightarrow> SlackStorage \<Rightarrow> string \<Rightarrow> error + SlackMessage list" where
  "GetMessagesInThread e s threadID =
     (if dbRefuses e (SelectMessagesInThread threadID) then
        Inl (Wrapped ''failed to get messages in thread''
              (StatementFailed (SelectMessagesInThread threadID)))
      else
        Inr (sort_key MessageTimestamp (filter (\<lambda>m. ThreadID m = threadID) (slack_messages s))))"

definition sameChunk :: "string \<Rightarrow> nat \<Rightarrow> thread_embedding \<Rightarrow> bool" where
  "sameChunk threadID chunkIndex t = (te_thread_id t = threadID \<and> te_chunk_index t = chunkIndex)"

text \<open>
  \<open>StoreThreadEmbedding\<close>: \<open>INSERT ... ON CONFLICT (thread_id, chunk_index) DO UPDATE\<close>
  of hash, vector and creation time; the vector must have the dimension of the column.
\<close>

definition StoreThreadEmbedding ::
    "env \<Rightarrow> SlackStorage \<Rightarrow> string \<Rightarrow> nat \<Rightarrow> string \<Rightarrow> embedding \<Rightarrow> error option \<times> SlackStorage" where
  "StoreThreadEmbedding e s threadID chunkIndex contentHash emb =
     (if dbRefuses e (UpsertThreadEmbedding threadID chunkIndex emb) then
        (Some (Wrapped ''failed to store thread embedding''
                (StatementFailed (UpsertThreadEmbedding threadID chunkIndex emb))), s)
      else if length emb \<noteq> embeddingDimension then
        (Some (Wrapped ''failed to store thread embedding''
                (DimensionMismatch embeddingDimension (length emb))), s)
      else
        (case find (sameChunk threadID chunkIndex) (slack_thread_embeddings s) of
           None \<Rightarrow>
             if dbRandomUUID e \<in> set (map te_id (slack_thread_embeddings s)) then
               (Some (Wrapped ''failed to store thread embedding'' PrimaryKeyViolation), s)
             else
               (None, s\<lparr>slack_thread_embeddings := slack_thread_embeddings s @
                   [\<lparr>te_id = dbRandomUUID e, te_thread_id = threadID, te_chunk_index = chunkIndex,
                     te_content_hash = contentHash, te_embedding = Some emb,
                     te_created_at = dbNow e\<rparr>]\<rparr>)
         | Some r \<Rightarrow>
             (None, s\<lparr>slack_thread_embeddings :=
                map (\<lambda>t. if sameChunk threadID chunkIndex t
                          then t\<lparr>te_content_hash := contentHash, te_embedding := Some emb,
                                 te_created_at := dbNow e\<rparr>
                          else t) (slack_thread_embeddings s)\<rparr>)))"

text \<open>
  \<open>SearchSimilarMessages\<close>: the \<open>thread_id\<close>s of the \<open>limit\<close> embedding rows nearest to
  the query vector (the similarity column of that query is read into a local variable
  and dropped), then every message of those threads, ordered by \<open>thread_id\<close> and
  \<open>message_timestamp\<close>.
\<close>

definition SearchSimilarMessages ::
    "env \<Rightarrow> SlackStorage \<Rightarrow> embedding \<Rightarrow> nat \<Rightarrow> error + SlackMessage list" where
  "SearchSimilarMessages e s emb limit =
     (if dbRefuses e (SelectSimilarThreads emb) then
        Inl (Wrapped ''failed to search similar threads'' (StatementFailed (SelectSimilarThreads emb)))
      else
        (let threadIDs =
               map te_thread_id
                 (take limit
                    (sort_key (\<lambda>t. cosine_distance (the (te_embedding t)) emb)
                       (filter (\<lambda>t. te_embedding t \<noteq> None) (slack_thread_embeddings s))))
         in if threadIDs = [] then Inr []
            else if dbRefuses e (SelectMessagesOfThreads threadIDs) then
              Inl (Wrapped ''failed to get messages from similar threads''
                    (StatementFailed (SelectMessagesOfThreads threadIDs)))
            else
              Inr (sort_key (\<lambda>m. (ThreadID m, MessageTimestamp m))
                     (filter (\<lambda>m. ThreadID m \<in> set threadIDs) (slack_messages s)))))"

subsection \<open>Documents\<close>

text \<open>
  \<open>Document\<close> is the Go struct of package \<open>storage\<close>; \<open>document_row\<close> is a row of table
  \<open>documents\<close>, with primary key \<open>id\<close>, the unique index \<open>idx_documents_unique_content\<close>
  on \<open>(content_hash, source, source_id)\<close> and a vector column that may be \<open>NULL\<close>.
\<close>

record Document =
  DocID :: string
  DocContent :: string
  Source :: string
  SourceID :: string
  Title :: string
  DocChannelID :: string
  PostID :: string
  DocUserID :: string
  DocUserName :: string
  Timestamp :: nat
  DocContentHash :: string
  Embedding :: embedding
  Similarity :: real
  DocCreatedAt :: nat
  DocUpdatedAt :: nat

record document_row =
  row_id :: string
  row_content :: string
  row_source :: string
  row_source_id :: string
  row_title :: string
  row_channel_id :: string
  row_post_id :: string
  row_user_id :: string
  row_user_name :: string
  row_timestamp :: nat
  row_content_hash :: string
  row_embedding :: "embedding option"
  row_created_at :: nat
  row_updated_at :: nat

record PostgresStore =
  documents :: "document_row list"

definition sameContent :: "Document \<Rightarrow> document_row \<Rightarrow> bool" where
  "sameContent doc r =
     (row_content_hash r = DocContentHash doc \<and> row_source r = Source doc
      \<and> row_source_id r = SourceID doc)"

text \<open>
  \<open>PostgresStore.StoreDocument\<close>: \<open>INSERT ... ON CONFLICT (content_hash, source,
  source_id) DO UPDATE SET content, title, updated_at\<close>. The vector of the document, when
  it has one, must have the dimension of the column. A row that conflicts on the unique
  index is updated; otherwise the row is inserted, which fails when its \<open>id\<close> is the
  primary key of a stored row. The function returns only an error.
\<close>

definition StoreDocument :: "env \<Rightarrow> PostgresStore \<Rightarrow> Document \<Rightarrow> error option \<times> PostgresStore" where
  "StoreDocument e s doc =
     (if dbRefuses e (UpsertDocument (DocID doc)) then
        (Some (Wrapped ''failed to store document'' (StatementFailed (UpsertDocument (DocID doc)))), s)
      else if length (Embedding doc) > 0 \<and> length (Embedding doc) \<noteq> embeddingDimension then
        (Some (Wrapped ''failed to store document''
                (DimensionMismatch embeddingDimension (length (Embedding doc)))), s)
      else if find (sameContent doc) (documents s) \<noteq> None then
        (None, s\<lparr>documents :=
           map (\<lambda>r. if sameContent doc r
                     then r\<lparr>row_content := DocContent doc, row_title := Title doc,
                            row_updated_at := dbNow e\<rparr>
                     else r) (documents s)\<rparr>)
      else if DocID doc \<in> set (map row_id (documents s)) then
        (Some (Wrapped ''failed to store document'' PrimaryKeyViolation), s)
      else
        (None, s\<lparr>documents := documents s @
           [\<lparr>row_id = DocID doc, row_content = DocContent doc, row_source = Source doc,
             row_source_id = SourceID doc, row_title = Title doc,
             row_channel_id = DocChannelID doc, row_post_id = PostID doc,
             row_user_id = DocUserID doc, row_user_name = DocUserName doc,
             row_timestamp = Timestamp doc, row_content_hash = DocContentHash doc,
             row_embedding = (if length (Embedding doc) > 0 then Some (Embedding doc) else None),
             row_created_at = dbNow e, row_updated_at = dbNow e\<rparr>]\<rparr>))"

text \<open>
  \<open>PostgresStore.UpdateEmbedding\<close>: \<open>UPDATE documents SET embedding = $1, updated_at =
  NOW() WHERE id = $2\<close>. The statement fails when the vector has not the dimension of the
  column; otherwise every row with the \<open>id\<close> (none, possibly) takes the vector.
\<close>

definition UpdateEmbedding ::
    "env \<Rightarrow> PostgresStore \<Rightarrow> string \<Rightarrow> embedding \<Rightarrow> error option \<times> PostgresStore" where
  "UpdateEmbedding e s documentID emb =
     (if dbRefuses e (UpdateDocumentEmbedding documentID emb) then
        (Some (Wrapped ''failed to update embedding''
                (StatementFailed (UpdateDocumentEmbedding documentID emb))), s)
      else if length emb \<noteq> embeddingDimension then
        (Some (Wrapped ''failed to update embedding''
                (DimensionMismatch embeddingDimension (length emb))), s)
      else
        (None, s\<lparr>documents :=
           map (\<lambda>r. if row_id r = documentID
                     then r\<lparr>row_embedding := Some emb, row_updated_at := dbNow e\<rparr>
                     else r) (documents s)\<rparr>))"

text \<open>The \<open>Document\<close> that \<open>rows.Scan\<close> fills from a row; the fields that a query does not
  select keep Go's zero values.\<close>

definition scanDocument :: "document_row \<Rightarrow> Document" where
  "scanDocument r =
     \<lparr>DocID = row_id r, DocContent = row_content r, Source = row_source r,
      SourceID = row_source_id r, Title = row_title r, DocChannelID = row_channel_id r,
      PostID = row_post_id r, DocUserID = row_user_id r, DocUserName = row_user_name r,
      Timestamp = row_timestamp r, DocContentHash = row_content_hash r,
      Embedding = [], Similarity = 0, DocCreatedAt = 0, DocUpdatedAt = 0\<rparr>"

definition GetDocumentsWithoutEmbeddings ::
    "env \<Rightarrow> PostgresStore \<Rightarrow> nat \<Rightarrow> error + Document list" where
  "GetDocumentsWithoutEmbeddings e s limit =
     (if dbRefuses e SelectDocumentsWithoutEmbeddings then
        Inl (Wrapped ''failed to get documents without embeddings''
              (StatementFailed SelectDocumentsWithoutEmbeddings))
      else
        Inr (map scanDocument
               (take limit (sort_key row_created_at
                  (filter (\<lambda>r. row_embedding r = None) (documents s))))))"

text \<open>\<open>SearchSimilar\<close>: rows with a vector of more than one element, nearest first; the
  similarity of a result is \<open>1 - (embedding <=> $1)\<close>.\<close>

definition SearchSimilar ::
    "env \<Rightarrow> PostgresStore \<Rightarrow> embedding \<Rightarrow> nat \<Rightarrow> error + Document list" where
  "SearchSimilar e s emb limit =
     (if dbRefuses e (SelectSimilarDocuments emb) then
        Inl (Wrapped ''failed to search similar documents''
              (StatementFailed (SelectSimilarDocuments emb)))
      else
        Inr (map (\<lambda>r. (scanDocument r)\<lparr>Embedding := the (row_embedding r),
                        Similarity := 1 - cosine_distance (the (row_embedding r)) emb\<rparr>)
               (take limit
                  (sort_key (\<lambda>r. cosine_distance (the (row_embedding r)) emb)
                     (filter (\<lambda>r. case row_embedding r of None \<Rightarrow> False | Some v \<Rightarrow> length v > 1)
                        (documents s))))))"

section \<open>Embedding service\<close>

text \<open>
  \<open>EmbeddingService.GenerateEmbedding\<close>: the text is trimmed, an empty text is refused
  before any call, a text of more than 32000 bytes is cut (at the last space, when that
  is within the last 100 bytes), and the API is called once. The second component of
  the result lists the texts sent to the API by this call.
\<close>

definition truncateText :: "string \<Rightarrow> string" where
  "truncateText t =
     (if length t > 32000 then
        (let t' = take 32000 t in
         case LastIndex t' '' '' of
           None \<Rightarrow> t'
         | Some lastSpace \<Rightarrow> if lastSpace > 32000 - 100 then take lastSpace t' else t')
      else t)"

definition GenerateEmbedding :: "env \<Rightarrow> string \<Rightarrow> (error + embedding) \<times> string list" where
  "GenerateEmbedding e text0 =
     (let t = TrimSpace text0 in
      if t = [] then (Inl (Errorf ''input text cannot be empty''), [])
      else
        (let t' = truncateText t in
         case createEmbeddings e t' of
           None \<Rightarrow> (Inl (Wrapped ''failed to generate embedding'' ApiCallFailed), [t'])
         | Some [] \<Rightarrow> (Inl (Errorf ''no embedding data returned''), [t'])
         | Some (d # ds) \<Rightarrow> (Inr d, [t'])))"

section \<open>Backlog processor for documents (package jobs)\<close>

text \<open>
  \<open>EmbeddingProcessor.processDocument\<close> returns the error (if any), the store and the
  texts sent to the embeddings API. For content that is empty after trimming, or shorter
  than 10 bytes, it calls \<open>UpdateEmbedding\<close> with the one-element vector \<open>[0.0]\<close>
  (\<open>[]float32{0.0}\<close>) instead of embedding the content.
\<close>

definition processDocument ::
    "env \<Rightarrow> PostgresStore \<Rightarrow> Document \<Rightarrow> error option \<times> PostgresStore \<times> string list" where
  "processDocument e s doc =
     (let content = TrimSpace (DocContent doc) in
      if content = [] then
        (let (err, s') = UpdateEmbedding e s (DocID doc) [0] in (err, s', []))
      else if length content < 10 then
        (let (err, s') = UpdateEmbedding e s (DocID doc) [0] in (err, s', []))
      else
        (case GenerateEmbedding e content of
           (Inl err, calls) \<Rightarrow> (Some err, s, calls)
         | (Inr emb, calls) \<Rightarrow>
             (let (err, s') = UpdateEmbedding e s (DocID doc) emb in (err, s', calls))))"

text \<open>The loop of \<open>processBatch\<close>: an error of one document is logged and the loop goes
  on with the next.\<close>

fun processDocuments ::
    "env \<Rightarrow> PostgresStore \<Rightarrow> Document list \<Rightarrow> PostgresStore \<times> string list" where
  "processDocuments e s [] = (s, [])"
| "processDocuments e s (doc # docs) =
     (case processDocument e s doc of
        (err, s', calls) \<Rightarrow>
          (case processDocuments e s' docs of (s'', calls') \<Rightarrow> (s'', calls @ calls')))"

definition processBatch ::
    "env \<Rightarrow> nat \<Rightarrow> PostgresStore \<Rightarrow> error option \<times> PostgresStore \<times> string list" where
  "processBatch e batchSize s =
     (case GetDocumentsWithoutEmbeddings e s batchSize of
        Inl err \<Rightarrow> (Some err, s, [])
      | Inr docs \<Rightarrow>
          if docs = [] then (None, s, [])
          else (case processDocuments e s docs of (s', calls) \<Rightarrow> (None, s', calls)))"

section \<open>Backlog processor for Slack threads (package slack)\<close>

definition formatTimestamp :: "env \<Rightarrow> string \<Rightarrow> string" where
  "formatTimestamp e slackTimestamp =
     (case ParseInt (takeWhile (\<lambda>c. c \<noteq> CHR ''.'') slackTimestamp) of
        None \<Rightarrow> slackTimestamp
      | Some unixSeconds \<Rightarrow> localTimeFormat e unixSeconds)"

definition buildThreadContent :: "env \<Rightarrow> SlackMessage list \<Rightarrow> string" where
  "buildThreadContent e messages =
     Join (map (\<lambda>msg. ''['' @ formatTimestamp e (MessageTimestamp msg) @ ''] '' @ UserName msg
                        @ '': '' @ Content msg) messages) [CHR 0x0A]"

text \<open>\<open>EmbeddingProcessor.isQualityContent\<close> of package \<open>slack\<close>.\<close>

definition threadTestPatterns :: "string list" where
  "threadTestPatterns =
     [''hello world'', ''sample'', ''example'', ''placeholder'',
      ''lorem ipsum'', ''dummy text'', ''test message'']"

definition threadIsQualityContent :: "env \<Rightarrow> string \<Rightarrow> bool" where
  "threadIsQualityContent e content =
     (if TrimSpace content = [] then False
      else if list_ex (Contains (ToLower (unicodeLower e) content)) threadTestPatterns then False
      else if length content < 5 then False
      else if length (Fields content) < 1 then False
      else True)"

text \<open>The loop over the chunks in \<open>processThread\<close>: the first error ends it, and the
  chunks stored before stay stored.\<close>

fun processChunks ::
    "env \<Rightarrow> SlackStorage \<Rightarrow> string \<Rightarrow> string list \<Rightarrow> nat
       \<Rightarrow> error option \<times> SlackStorage \<times> string list" where
  "processChunks e s threadID [] chunkIndex = (None, s, [])"
| "processChunks e s threadID (chunk # chunks) chunkIndex =
     (case GenerateEmbedding e chunk of
        (Inl err, calls) \<Rightarrow> (Some (Wrapped ''failed to generate embedding for chunk'' err), s, calls)
      | (Inr emb, calls) \<Rightarrow>
          (case StoreThreadEmbedding e s threadID chunkIndex (sha256hex e chunk) emb of
             (Some err, s') \<Rightarrow>
               (Some (Wrapped ''failed to store thread embedding for chunk'' err), s', calls)
           | (None, s') \<Rightarrow>
               (case processChunks e s' threadID chunks (chunkIndex + 1) of
                  (err, s'', calls') \<Rightarrow> (err, s'', calls @ calls'))))"

definition processThread ::
    "env \<Rightarrow> SlackStorage \<Rightarrow> string \<Rightarrow> error option \<times> SlackStorage \<times> string list" where
  "processThread e s threadID =
     (case GetMessagesInThread e s threadID of
        Inl err \<Rightarrow> (Some (Wrapped ''failed to get messages in thread'' err), s, [])
      | Inr messages \<Rightarrow>
          if messages = [] then (None, s, [])
          else
            (let threadContent = buildThreadContent e messages in
             if \<not> threadIsQualityContent e threadContent then (None, s, [])
             else processChunks e s threadID (chunkContent threadContent) 0))"

fun processThreads ::
    "env \<Rightarrow> SlackStorage \<Rightarrow> string list \<Rightarrow> SlackStorage \<times> string list" where
  "processThreads e s [] = (s, [])"
| "processThreads e s (threadID # threadIDs) =
     (case processThread e s threadID of
        (err, s', calls) \<Rightarrow>
          (case processThreads e s' threadIDs of (s'', calls') \<Rightarrow> (s'', calls @ calls')))"

definition threadProcessBatch ::
    "env \<Rightarrow> nat \<Rightarrow> SlackStorage \<Rightarrow> error option \<times> SlackStorage \<times> string list" where
  "threadProcessBatch e batchSize s =
     (case GetThreadsWithoutEmbeddings e s batchSize of
        Inl err \<Rightarrow> (Some err, s, [])
      | Inr threadIDs \<Rightarrow>
          if threadIDs = [] then (None, s, [])
          else (case processThreads e s threadIDs of (s', calls) \<Rightarrow> (None, s', calls)))"

text \<open>
  \<open>Start\<close> calls \<open>processBatch\<close> at every tick of its timer, until it is cancelled. The
  state after a sequence of ticks, each with the environment it meets:
\<close>

fun threadTicks :: "env list \<Rightarrow> nat \<Rightarrow> SlackStorage \<Rightarrow> SlackStorage" where
  "threadTicks [] batchSize s = s"
| "threadTicks (e # es) batchSize s =
     threadTicks es batchSize (fst (snd (threadProcessBatch e batchSize s)))"

text \<open>The document store changes by ticks of the backlog processor and by calls of
  \<open>StoreDocument\<close> from the handlers, in any order.\<close>

datatype store_event = Tick env nat | Ingest env Document

fun runDocumentStore :: "store_event list \<Rightarrow> PostgresStore \<Rightarrow> PostgresStore" where
  "runDocumentStore [] s = s"
| "runDocumentStore (Tick e batchSize # evs) s =
     runDocumentStore evs (fst (snd (processBatch e batchSize s)))"
| "runDocumentStore (Ingest e doc # evs) s =
     runDocumentStore evs (snd (StoreDocument e s doc))"

text \<open>\<open>GetStats\<close>: the number of threads (documents) without embeddings, counted up to
  1000; \<open>None\<close> when the query fails.\<close>

definition threadGetStats :: "env \<Rightarrow> SlackStorage \<Rightarrow> nat option" where
  "threadGetStats e s =
     (case GetThreadsWithoutEmbeddings e s 1000 of Inl err \<Rightarrow> None | Inr ids \<Rightarrow> Some (length ids))"

section \<open>Query: similarity search, relevance filter and answer synthesis\<close>

text \<open>
  \<open>isQualityContent\<close> of package \<open>services\<close>. Two of the bot patterns are spelled in the
  source file with bytes outside ASCII; they are given here byte by byte.
\<close>

definition botPatterns :: "string list" where
  "botPatterns =
     [''got it'', ''i've processed'', ''stored the messages'', '':+1:'',
      [CHR 0xEF, CHR 0xA3, CHR 0xBF, CHR 0xC3, CHR 0xBC, CHR 0xC3, CHR 0xAB, CHR 0xC3, CHR 0xA7],
      [CHR 0xE2, CHR 0x80, CHR 0x9A, CHR 0xC3, CHR 0xBA, CHR 0xC3, CHR 0x96],
      ''done'', ''processed and stored'']"

definition testPatterns :: "string list" where
  "testPatterns =
     [''test'', ''testing'', ''some other content'', ''this is my other message'',
      ''should also go in'', ''hello world'', ''sample'', ''example'']"

definition isQualityContent :: "env \<Rightarrow> string \<Rightarrow> bool" where
  "isQualityContent e content0 =
     (let content = ToLower (unicodeLower e) (TrimSpace content0) in
      if list_ex (Contains content) botPatterns then False
      else if list_ex (Contains content) testPatterns then False
      else if length content < 20 then False
      else if length (Fields content) < 4 then False
      else True)"

text \<open>\<open>calculateSimilarity\<close> reads neither the query embedding nor the message.\<close>

definition calculateSimilarity :: "embedding \<Rightarrow> SlackMessage \<Rightarrow> nat \<Rightarrow> real" where
  "calculateSimilarity queryEmbedding msg index = 0.9 - (real index * 0.05)"

text \<open>The loop \<open>for i, msg := range messages\<close> that collects the messages above a
  threshold; \<open>i\<close> is the index of the head of the list.\<close>

fun relevantAbove ::
    "env \<Rightarrow> real \<Rightarrow> embedding \<Rightarrow> SlackMessage list \<Rightarrow> nat \<Rightarrow> SlackMessage list" where
  "relevantAbove e threshold queryEmbedding [] i = []"
| "relevantAbove e threshold queryEmbedding (msg # messages) i =
     (if calculateSimilarity queryEmbedding msg i > threshold \<and> isQualityContent e (Content msg)
      then msg # relevantAbove e threshold queryEmbedding messages (i + 1)
      else relevantAbove e threshold queryEmbedding messages (i + 1))"

text \<open>The thresholds that \<open>Query\<close> writes as the literals 0.75 and 0.6 (and 0.5 in its
  earlier form over documents).\<close>

definition primaryThreshold :: real where
  "primaryThreshold = 0.75"

definition relaxedThreshold :: real where
  "relaxedThreshold = 0.6"

definition documentThreshold :: real where
  "documentThreshold = 0.5"

record QueryResult =
  Answer :: string
  Sources :: "SlackMessage list"
  Query :: string

definition noInformationAnswer :: string where
  "noInformationAnswer = ''I couldn't find any relevant information to answer your question.''"

text \<open>\<open>callOpenAIAPI\<close>; the second component lists the calls of the chat completion API
  (system prompt, user prompt).\<close>

definition callOpenAIAPI ::
    "env \<Rightarrow> string \<Rightarrow> string \<Rightarrow> (error + string) \<times> (string \<times> string) list" where
  "callOpenAIAPI e systemPrompt userPrompt =
     (case createChatCompletion e systemPrompt userPrompt of
        None \<Rightarrow> (Inl (Wrapped ''failed to call OpenAI API'' ApiCallFailed),
                 [(systemPrompt, userPrompt)])
      | Some [] \<Rightarrow> (Inr ''I couldn't generate a response. Please try again.'',
                 [(systemPrompt, userPrompt)])
      | Some (c # cs) \<Rightarrow> (Inr c, [(systemPrompt, userPrompt)]))"

text \<open>\<open>generateAnswer\<close> groups the messages by thread in a Go map and ranges over the
  map; \<open>mapOrder\<close> gives the order of that walk.\<close>

definition generateAnswer ::
    "env \<Rightarrow> string \<Rightarrow> SlackMessage list \<Rightarrow> (error + string) \<times> (string \<times> string) list" where
  "generateAnswer e query messages =
     (let keys = mapOrder e (remdups (map ThreadID messages));
          contextParts =
            concat (map (\<lambda>(contextIndex, k).
                      (''['' @ itoa contextIndex @ ''] Thread conversation:'')
                      # map (\<lambda>msg. ''  '' @ UserName msg @ '': '' @ Content msg)
                          (filter (\<lambda>msg. ThreadID msg = k) messages))
                    (zip [1 ..< Suc (length keys)] keys));
          context = Join contextParts [CHR 0x0A];
          systemPrompt = ''You are a helpful assistant that answers questions based on internal company knowledge from Slack conversations. Be concise and cite relevant thread conversations by their numbers when possible.'';
          userPrompt = ''Based on the following context from our internal Slack knowledge base, please answer the question. Be concise and cite relevant thread conversations by their numbers.''
             @ [CHR 0x0A, CHR 0x0A] @ ''Context:'' @ [CHR 0x0A] @ context
             @ [CHR 0x0A, CHR 0x0A] @ ''Question: '' @ query
      in callOpenAIAPI e systemPrompt userPrompt)"

text \<open>
  \<open>RAGService.Query\<close> over the Slack storage. The result is the value returned (an error
  or a \<open>QueryResult\<close>), the texts sent to the embeddings API and the calls of the chat
  completion API.
\<close>

definition RAGService_Query ::
    "env \<Rightarrow> SlackStorage \<Rightarrow> string
       \<Rightarrow> (error + QueryResult) \<times> string list \<times> (string \<times> string) list" where
  "RAGService_Query e s query =
     (case GenerateEmbedding e query of
        (Inl err, calls) \<Rightarrow> (Inl (Wrapped ''failed to generate query embedding'' err), calls, [])
      | (Inr queryEmbedding, calls) \<Rightarrow>
          (case SearchSimilarMessages e s queryEmbedding 10 of
             Inl err \<Rightarrow> (Inl (Wrapped ''failed to search similar messages'' err), calls, [])
           | Inr messages \<Rightarrow>
               (let strict = relevantAbove e primaryThreshold queryEmbedding messages 0;
                    relevantMessages =
                      (if length strict = 0 then relevantAbove e relaxedThreshold queryEmbedding messages 0
                       else strict)
                in if length relevantMessages = 0 then
                     (Inr \<lparr>Answer = noInformationAnswer, Sources = [], Query = query\<rparr>, calls, [])
                   else
                     (case generateAnswer e query relevantMessages of
                        (Inl err, chats) \<Rightarrow>
                          (Inl (Wrapped ''failed to generate answer'' err), calls, chats)
                      | (Inr answer, chats) \<Rightarrow>
                          (Inr \<lparr>Answer = answer, Sources = relevantMessages, Query = query\<rparr>,
                           calls, chats)))))"

subsection \<open>The same over the document store\<close>

text \<open>The earlier \<open>RAGService.Query\<close>, over \<open>storage.Store\<close>: one threshold, 0.5, on the
  similarity that \<open>SearchSimilar\<close> computed.\<close>

record DocumentQueryResult =
  DocAnswer :: string
  DocSources :: "Document list"
  DocQuery :: string

definition getSlabType :: "Document \<Rightarrow> string" where
  "getSlabType doc = (if PostID doc \<noteq> [] then ''comment'' else ''post'')"

definition generateDocumentAnswer ::
    "env \<Rightarrow> string \<Rightarrow> Document list \<Rightarrow> (error + string) \<times> (string \<times> string) list" where
  "generateDocumentAnswer e query docs =
     (let contextParts =
            map (\<lambda>(i, doc).
                   ''['' @ itoa (i + 1) @ ''] ''
                   @ (if Source doc = ''slack'' then ''Slack message from '' @ DocUserName doc
                      else ''Slab '' @ getSlabType doc @ '' from '' @ DocUserName doc)
                   @ '' ('' @ formatFloat2 e (Similarity doc) @ '' relevance):'' @ [CHR 0x0A]
                   @ DocContent doc)
                (zip [0 ..< length docs] docs);
          context = Join contextParts [CHR 0x0A, CHR 0x0A];
          systemPrompt = ''You are a helpful assistant that answers questions based on internal company knowledge. Be concise and cite relevant sources by their numbers when possible.'';
          userPrompt = ''Based on the following context from our internal knowledge base, please answer the question. Be concise and cite relevant sources by their numbers.''
             @ [CHR 0x0A, CHR 0x0A] @ ''Context:'' @ [CHR 0x0A] @ context
             @ [CHR 0x0A, CHR 0x0A] @ ''Question: '' @ query
      in callOpenAIAPI e systemPrompt userPrompt)"

definition RAGService_Query_documents ::
    "env \<Rightarrow> PostgresStore \<Rightarrow> string
       \<Rightarrow> (error + DocumentQueryResult) \<times> string list \<times> (string \<times> string) list" where
  "RAGService_Query_documents e s query =
     (case GenerateEmbedding e query of
        (Inl err, calls) \<Rightarrow> (Inl (Wrapped ''failed to generate query embedding'' err), calls, [])
      | (Inr queryEmbedding, calls) \<Rightarrow>
          (case SearchSimilar e s queryEmbedding 10 of
             Inl err \<Rightarrow> (Inl (Wrapped ''failed to search similar documents'' err), calls, [])
           | Inr docs \<Rightarrow>
               (let relevantDocs = filter (\<lambda>doc. Similarity doc > documentThreshold) docs
                in if length relevantDocs = 0 then
                     (Inr \<lparr>DocAnswer = noInformationAnswer, DocSources = [], DocQuery = query\<rparr>,
                      calls, [])
                   else
                     (case generateDocumentAnswer e query relevantDocs of
                        (Inl err, chats) \<Rightarrow>
                          (Inl (Wrapped ''failed to generate answer'' err), calls, chats)
                      | (Inr answer, chats) \<Rightarrow>
                          (Inr \<lparr>DocAnswer = answer, DocSources = relevantDocs, DocQuery = query\<rparr>,
                           calls, chats)))))"

section \<open>Concrete environments and stores\<close>

text \<open>
  An environment in which every outside call succeeds, used to run the model on
  concrete inputs: the embeddings API answers every text with the vector \<open>[1, 0]\<close>, the
  chat API with one choice, the database refuses nothing. Its \<open>sha256hex\<close> is a stand-in
  (no result below depends on the digest), and so are its time format and its Unicode
  table.
\<close>

definition exampleEnv :: env where
  "exampleEnv =
     \<lparr>unicodeLower = (\<lambda>s. s),
      localTimeFormat = (\<lambda>n. ''January 1, 2025, 9:00AM''),
      sha256hex = (\<lambda>s. ''sha256:'' @ s),
      formatFloat2 = (\<lambda>x. ''0.00''),
      createEmbeddings = (\<lambda>t. Some [[1, 0]]),
      createChatCompletion = (\<lambda>sys usr. Some [''Deploys run on Fridays [1].'']),
      dbRefuses = (\<lambda>st. False),
      dbNow = 100,
      dbRandomUUID = 7,
      mapOrder = (\<lambda>ks. ks)\<rparr>"

definition exampleMessage :: "nat \<Rightarrow> string \<Rightarrow> string \<Rightarrow> string \<Rightarrow> SlackMessage" where
  "exampleMessage i thread ts content =
     \<lparr>ID = i, ChannelID = ''C1'', ThreadID = thread, MessageTimestamp = ts,
      UserID = ''U1'', UserName = ''alice'', Content = content, ContentHash = ''sha256:'' @ content,
      ClientMsgID = [], IsThreadRoot = (thread = ts), CreatedAt = 10 + i, UpdatedAt = 10 + i\<rparr>"

definition exampleChunk :: "nat \<Rightarrow> string \<Rightarrow> embedding \<Rightarrow> thread_embedding" where
  "exampleChunk i thread v =
     \<lparr>te_id = i, te_thread_id = thread, te_chunk_index = 0, te_content_hash = ''h'',
      te_embedding = Some v, te_created_at = 50\<rparr>"

text \<open>Three stores of one thread each, whose only embedding \<open>[0, 1]\<close> is orthogonal to the
  query vector \<open>[1, 0]\<close> of \<open>exampleEnv\<close>, and a document store of the same kind.\<close>

definition deployMessage :: SlackMessage where
  "deployMessage =
     exampleMessage 4 ''1700000000.000100'' ''1700000003.000100''
       ''We deploy the billing service every Friday at noon''"

definition quietStore :: SlackStorage where
  "quietStore =
     \<lparr>slack_messages =
        [exampleMessage 1 ''1700000000.000100'' ''1700000000.000100'' ''ok'',
         exampleMessage 2 ''1700000000.000100'' ''1700000001.000100'' ''got it'',
         exampleMessage 3 ''1700000000.000100'' ''1700000002.000100'' ''thanks''],
      slack_thread_embeddings = [exampleChunk 1 ''1700000000.000100'' [0, 1]]\<rparr>"

definition deployStore :: SlackStorage where
  "deployStore = quietStore\<lparr>slack_messages := slack_messages quietStore @ [deployMessage]\<rparr>"


definition exampleRow :: "string \<Rightarrow> string \<Rightarrow> string \<Rightarrow> string \<Rightarrow> embedding option \<Rightarrow> document_row" where
  "exampleRow i sid content hash v =
     \<lparr>row_id = i, row_content = content, row_source = ''slack'', row_source_id = sid,
      row_title = [], row_channel_id = ''C1'', row_post_id = [], row_user_id = ''U1'',
      row_user_name = ''alice'', row_timestamp = 5, row_content_hash = hash,
      row_embedding = v, row_created_at = 10, row_updated_at = 10\<rparr>"

definition orthogonalDocuments :: PostgresStore where
  "orthogonalDocuments =
     \<lparr>documents = [exampleRow ''slack_C1_1'' ''1''
        ''We deploy the billing service every Friday at noon'' ''h1'' (Some [0, 1])]\<rparr>"

text \<open>A vector of the dimension of the columns, and the environment whose embeddings API
  answers with it.\<close>

definition unitVector :: embedding where
  "unitVector = 1 # replicate 1535 0"

definition fullSizeEnv :: env where
  "fullSizeEnv = exampleEnv\<lparr>createEmbeddings := (\<lambda>t. Some [unitVector])\<rparr>"

text \<open>A backlog of two documents without vectors: one of 9 bytes, one of 10; and the
  backlog of the first alone.\<close>

definition backlogStore :: PostgresStore where
  "backlogStore =
     \<lparr>documents =
        [exampleRow ''slack_C1_1'' ''1'' ''short msg'' ''h1'' None,
         exampleRow ''slack_C1_2'' ''2'' ''exactly10c'' ''h2'' None]\<rparr>"

definition shortBacklog :: PostgresStore where
  "shortBacklog = \<lparr>documents = [exampleRow ''slack_C1_1'' ''1'' ''short msg'' ''h1'' None]\<rparr>"

definition shortDocument :: Document where
  "shortDocument = scanDocument (exampleRow ''slack_C1_1'' ''1'' ''short msg'' ''h1'' None)"

definition borderlineDocument :: Document where
  "borderlineDocument = scanDocument (exampleRow ''slack_C1_2'' ''2'' ''exactly10c'' ''h2'' None)"

definition accentedStore :: PostgresStore where
  "accentedStore =
     \<lparr>documents =
        [exampleRow ''slack_C1_3'' ''3'' (''h'' @ [CHR 0xC3, CHR 0xA9] @ ''llo wor'') ''h3'' None]\<rparr>"

definition accentedDocument :: Document where
  "accentedDocument =
     scanDocument
       (exampleRow ''slack_C1_3'' ''3'' (''h'' @ [CHR 0xC3, CHR 0xA9] @ ''llo wor'') ''h3'' None)"

text \<open>The message \<open>hello\<close> of channel \<open>C1\<close> and its edit, as a Slack message and as the
  document that \<open>SlackHandler.storeMessage\<close> builds from it.\<close>

definition helloMessage :: SlackMessage where
  "helloMessage = exampleMessage 0 ''100.000100'' ''100.000100'' ''hello''"

definition editedMessage :: SlackMessage where
  "editedMessage = exampleMessage 0 ''100.000100'' ''100.000100'' ''hello world, much longer now''"

definition emptyStorage :: SlackStorage where
  "emptyStorage = \<lparr>slack_messages = [], slack_thread_embeddings = []\<rparr>"

definition helloDocument :: Document where
  "helloDocument =
     \<lparr>DocID = ''slack_C1_100.000100'', DocContent = ''hello'', Source = ''slack'',
      SourceID = ''100.000100'', Title = [], DocChannelID = ''C1'', PostID = [],
      DocUserID = ''U1'', DocUserName = [], Timestamp = 100, DocContentHash = ''sha256:hello'',
      Embedding = [], Similarity = 0, DocCreatedAt = 0, DocUpdatedAt = 0\<rparr>"

definition editedDocument :: Document where
  "editedDocument =
     helloDocument\<lparr>DocContent := ''hello world, much longer now'',
       DocContentHash := ''sha256:hello world, much longer now''\<rparr>"

definition emptyDocuments :: PostgresStore where
  "emptyDocuments = \<lparr>documents = []\<rparr>"

text \<open>The environment one tick of the clock later.\<close>

definition laterEnv :: env where
  "laterEnv = exampleEnv\<lparr>dbNow := 200, dbRandomUUID := 8\<rparr>"

text \<open>The message \<open>hello there\<close> with the same identity, as a document; and the tables
  after the first message was ingested and the backlog processed: the thread of
  \<open>hello\<close> and the document \<open>hello there\<close> have a vector.\<close>

definition greetingDocument :: Document where
  "greetingDocument =
     helloDocument\<lparr>DocContent := ''hello there'', DocContentHash := ''sha256:hello there''\<rparr>"

definition helloStorage :: SlackStorage where
  "helloStorage =
     snd (StoreThreadEmbedding exampleEnv
            (snd (StoreMessage exampleEnv emptyStorage helloMessage))
            ''100.000100'' 0 ''sha256:hello'' unitVector)"

definition greetingDocuments :: PostgresStore where
  "greetingDocuments =
     fst (snd (processBatch fullSizeEnv 10
                 (snd (StoreDocument fullSizeEnv emptyDocuments greetingDocument))))"

text \<open>A backlog of one thread, whose only message holds the word \<open>example\<close>.\<close>

definition exampleThread :: SlackStorage where
  "exampleThread =
     \<lparr>slack_messages =
        [exampleMessage 1 ''1700000000.000100'' ''1700000000.000100''
           ''Here is an example of the weekly report''],
      slack_thread_embeddings = []\<rparr>"

section \<open>Auxiliary notions for the proofs\<close>

text \<open>The number of characters of a well-formed UTF-8 string: every byte except the
  continuation bytes \<open>0x80\<close> to \<open>0xBF\<close> starts one.\<close>

definition utf8Characters :: "string \<Rightarrow> nat" where
  "utf8Characters s = length (filter (\<lambda>c. of_char c < (0x80 :: nat) \<or> (0xC0 :: nat) \<le> of_char c) s)"

text \<open>The columns of the unique indexes, row by row: \<open>(channel_id, message_timestamp)\<close>
  of \<open>slack_messages\<close> and \<open>(content_hash, source, source_id)\<close> of \<open>documents\<close>. A
  table respects its index when the list has no duplicate.\<close>

definition messageKeys :: "SlackStorage \<Rightarrow> (string \<times> string) list" where
  "messageKeys s = map (\<lambda>m. (ChannelID m, MessageTimestamp m)) (slack_messages s)"

definition documentKeys :: "PostgresStore \<Rightarrow> (string \<times> string \<times> string) list" where
  "documentKeys s = map (\<lambda>r. (row_content_hash r, row_source r, row_source_id r)) (documents s)"

section \<open>The normalizer is not idempotent (C5)\<close>

text \<open>
  Claim C5 asks \<open>cleanMessageText (cleanMessageText x) = cleanMessageText x\<close> for every
  \<open>x\<close>. The two loops run one after the other, once: cutting a \<open><#...>\<close> token in
  the second loop can join a \<open><\<close> before it with an \<open>@\<close> after it, and the first
  loop is not run again. On \<open><<#C1|x>@U2>\<close> the first call returns \<open><@U2>\<close>, a user
  mention that a second call removes.
\<close>

lemma cleanMessageText_once: "cleanMessageText ''<<#C1|x>@U2>'' = ''<@U2>''"
  by code_simp

lemma cleanMessageText_twice: "cleanMessageText ''<@U2>'' = []"
  by code_simp

theorem cleanMessageText_not_idempotent:
  "cleanMessageText (cleanMessageText ''<<#C1|x>@U2>'') \<noteq> cleanMessageText ''<<#C1|x>@U2>''"
  by (simp add: cleanMessageText_once cleanMessageText_twice)

section \<open>The chunker keeps the words (C9, C10)\<close>

lemma spaceEncodings_nonempty: "e \<in> set spaceEncodings \<Longrightarrow> e \<noteq> []"
  by (auto simp: spaceEncodings_def)

lemma spaceWidth_0_iff: "spaceWidth s = 0 \<longleftrightarrow> (\<forall>e \<in> set spaceEncodings. \<not> HasPrefix s e)"
proof (cases "find (HasPrefix s) spaceEncodings")
  case None
  then have "spaceWidth s = 0" by (simp add: spaceWidth_def)
  moreover from None have "\<forall>e \<in> set spaceEncodings. \<not> HasPrefix s e"
    by (simp add: find_None_iff)
  ultimately show ?thesis by simp
next
  case (Some e)
  then have "e \<in> set spaceEncodings" "HasPrefix s e"
    by (auto simp: find_Some_iff)
  with Some show ?thesis
    using spaceEncodings_nonempty [of e] by (auto simp: spaceWidth_def)
qed

lemma spaceWidth_append_0: "spaceWidth (t @ s) = 0 \<Longrightarrow> spaceWidth t = 0"
  by (auto simp: spaceWidth_0_iff HasPrefix_def)

lemma spaceWidth_space: "spaceWidth (CHR 0x20 # r) = 1"
  by (simp add: spaceWidth_def spaceEncodings_def HasPrefix_def)

lemma encoding_no_space_inside:
  assumes "e \<in> set spaceEncodings" "w \<noteq> []" "HasPrefix (w @ CHR 0x20 # r) e"
  shows "HasPrefix w e"
proof -
  obtain a w' where w: "w = a # w'" using assms(2) by (cases w) auto
  show ?thesis
  proof (cases w')
    case Nil
    with assms w show ?thesis by (auto simp: spaceEncodings_def HasPrefix_def)
  next
    case (Cons b w'')
    show ?thesis
    proof (cases w'')
      case Nil
      with assms w Cons show ?thesis by (auto simp: spaceEncodings_def HasPrefix_def)
    next
      case (Cons c w''')
      with assms w \<open>w' = b # w''\<close> show ?thesis by (auto simp: spaceEncodings_def HasPrefix_def)
    qed
  qed
qed


lemma spaceWidth_before_space:
  assumes "t \<noteq> []" "spaceWidth t = 0"
  shows "spaceWidth (t @ CHR 0x20 # r) = 0"
  using assms encoding_no_space_inside [of _ t r] by (auto simp: spaceWidth_0_iff)


lemma FieldsFunc_word:
  "(\<forall>p < length w. spaceWidth (drop p w @ rest) = 0) \<Longrightarrow>
     FieldsFunc cur (w @ rest) = FieldsFunc (cur @ w) rest"
proof (induction w arbitrary: cur)
  case Nil
  then show ?case by simp
next
  case (Cons c w)
  from Cons.prems have head: "spaceWidth (c # w @ rest) = 0" by force
  have tail: "\<forall>p < length w. spaceWidth (drop p w @ rest) = 0"
  proof (intro allI impI)
    fix p assume "p < length w"
    with Cons.prems have "spaceWidth (drop (Suc p) (c # w) @ rest) = 0" by (metis Suc_less_eq length_Cons)
    then show "spaceWidth (drop p w @ rest) = 0" by simp
  qed
  show ?case using head Cons.IH [OF tail, of "cur @ [c]"] by simp
qed

lemma FieldsFunc_word_end:
  assumes "noSpaceIn w"
  shows "FieldsFunc cur w = (if cur @ w = [] then [] else [cur @ w])"
proof -
  have "\<forall>p < length w. spaceWidth (drop p w @ []) = 0"
    using assms by (simp add: noSpaceIn_def)
  from FieldsFunc_word [OF this, of cur] show ?thesis by simp
qed

lemma FieldsFunc_word_space:
  assumes "noSpaceIn w"
  shows "FieldsFunc cur (w @ CHR 0x20 # r) = (if cur @ w = [] then [] else [cur @ w]) @ FieldsFunc [] r"
proof -
  have "\<forall>p < length w. spaceWidth (drop p w @ CHR 0x20 # r) = 0"
  proof (intro allI impI)
    fix p assume "p < length w"
    then have "drop p w \<noteq> []" "spaceWidth (drop p w) = 0"
      using assms by (simp_all add: noSpaceIn_def)
    then show "spaceWidth (drop p w @ CHR 0x20 # r) = 0" by (rule spaceWidth_before_space)
  qed
  from FieldsFunc_word [OF this, of cur] show ?thesis by (simp add: spaceWidth_space)
qed

lemma Fields_Join:
  "(\<forall>w \<in> set ws. w \<noteq> [] \<and> noSpaceIn w) \<Longrightarrow> FieldsFunc [] (Join ws '' '') = ws"
proof (induction ws "'' ''" rule: Join.induct)
  case 1
  then show ?case by simp
next
  case (2 x)
  then show ?case by (simp add: FieldsFunc_word_end)
next
  case (3 x y ys)
  then show ?case by (simp add: FieldsFunc_word_space)
qed

lemma FieldsFunc_words:
  "(\<forall>p < length cur. spaceWidth (drop p cur @ s) = 0) \<Longrightarrow>
     \<forall>w \<in> set (FieldsFunc cur s). w \<noteq> [] \<and> noSpaceIn w"
proof (induction cur s rule: FieldsFunc.induct)
  case (1 cur)
  then show ?case by (auto simp: noSpaceIn_def)
next
  case (2 cur c s)
  show ?case
  proof (cases "spaceWidth (c # s) = 0")
    case True
    have "\<forall>p < length (cur @ [c]). spaceWidth (drop p (cur @ [c]) @ s) = 0"
    proof (intro allI impI)
      fix p assume p: "p < length (cur @ [c])"
      show "spaceWidth (drop p (cur @ [c]) @ s) = 0"
      proof (cases "p < length cur")
        case True
        then show ?thesis using "2.prems" by simp
      next
        case False
        with p have "p = length cur" by simp
        then show ?thesis using \<open>spaceWidth (c # s) = 0\<close> by simp
      qed
    qed
    from "2.IH"(1) [OF True this] True show ?thesis by simp
  next
    case False
    have cur: "noSpaceIn cur"
      unfolding noSpaceIn_def using "2.prems" spaceWidth_append_0 by blast
    have "\<forall>w \<in> set (FieldsFunc [] (drop (spaceWidth (c # s)) (c # s))). w \<noteq> [] \<and> noSpaceIn w"
      using "2.IH"(2) [OF False] by simp
    with False cur show ?thesis by auto
  qed
qed

lemma Fields_words: "\<forall>w \<in> set (Fields s). w \<noteq> [] \<and> noSpaceIn w"
  unfolding Fields_def by (rule FieldsFunc_words) simp

lemma chunkLoop_unfold:
  "i < length words \<Longrightarrow> chunkLoop words i =
     Join (take (min maxWordsPerChunk (length words - i)) (drop i words)) '' ''
       # chunkLoop words (i + maxWordsPerChunk)"
proof -
  assume lt: "i < length words"
  have "(if i + maxWordsPerChunk > length words then length words else i + maxWordsPerChunk) - i
      = min maxWordsPerChunk (length words - i)"
    using lt by (simp add: min_def) arith
  then show ?thesis
    using lt by (subst chunkLoop.simps) (simp only: Let_def if_True)
qed

lemma chunkLoop_done: "\<not> i < length words \<Longrightarrow> chunkLoop words i = []"
  by (subst chunkLoop.simps) (simp only: if_False)

lemma Fields_Join_piece:
  assumes "\<forall>w \<in> set words. w \<noteq> [] \<and> noSpaceIn w"
  shows "Fields (Join (take k (drop i words)) '' '') = take k (drop i words)"
proof -
  have "\<forall>w \<in> set (take k (drop i words)). w \<noteq> [] \<and> noSpaceIn w"
    using assms by (meson in_set_dropD in_set_takeD)
  then show ?thesis unfolding Fields_def by (rule Fields_Join)
qed

lemma chunkLoop_words:
  "(\<forall>w \<in> set words. w \<noteq> [] \<and> noSpaceIn w) \<Longrightarrow>
     concat (map Fields (chunkLoop words i)) = drop i words
       \<and> (\<forall>c \<in> set (chunkLoop words i). length (Fields c) \<le> maxWordsPerChunk)"
proof (induction words i rule: chunkLoop.induct)
  case (1 words i)
  show ?case
  proof (cases "i < length words")
    case False
    then show ?thesis by (simp add: chunkLoop_done)
  next
    case True
    let ?k = "min maxWordsPerChunk (length words - i)"
    have piece: "Fields (Join (take ?k (drop i words)) '' '') = take ?k (drop i words)"
      using "1.prems" by (rule Fields_Join_piece)
    have IH: "concat (map Fields (chunkLoop words (i + maxWordsPerChunk))) = drop (i + maxWordsPerChunk) words
       \<and> (\<forall>c \<in> set (chunkLoop words (i + maxWordsPerChunk)). length (Fields c) \<le> maxWordsPerChunk)"
      using "1.IH" [OF True refl "1.prems"] .
    have "take ?k (drop i words) @ drop (i + maxWordsPerChunk) words = drop i words"
    proof (cases "maxWordsPerChunk \<le> length words - i")
      case True
      then have "?k = maxWordsPerChunk" by simp
      moreover have "drop (i + maxWordsPerChunk) words = drop maxWordsPerChunk (drop i words)"
        by (simp add: add.commute)
      ultimately show ?thesis by (simp del: drop_drop)
    next
      case False
      then show ?thesis by simp
    qed
    with piece IH show ?thesis
      by (simp add: chunkLoop_unfold [OF True])
  qed
qed


text \<open>
  Claim C9. Every chunk that \<open>chunkContent\<close> returns holds at most 7000 words (fields
  in the sense of \<open>strings.Fields\<close>), and a text of at most 7000 words comes back as
  the one-element list holding the text itself, unmodified. The result is determined by
  the text: \<open>chunkContent\<close> reads nothing else (the Go method does not touch its
  receiver).
\<close>

theorem chunkContent_bounded:
  "(\<forall>c \<in> set (chunkContent content). length (Fields c) \<le> 7000)
   \<and> (length (Fields content) \<le> 7000 \<longrightarrow> chunkContent content = [content])"
proof (cases "length (Fields content) \<le> maxWordsPerChunk")
  case True
  then show ?thesis by (simp add: chunkContent_def Let_def maxWordsPerChunk_def)
next
  case False
  have "\<forall>c \<in> set (chunkLoop (Fields content) 0). length (Fields c) \<le> maxWordsPerChunk"
    using chunkLoop_words [OF Fields_words, of content 0] by blast
  with False show ?thesis by (simp add: chunkContent_def Let_def maxWordsPerChunk_def)
qed

text \<open>
  Claim C10. The words of the chunks, concatenated in chunk order, are exactly the words
  of the input text: chunking neither loses, duplicates nor reorders a word.
\<close>

theorem chunkContent_words:
  "concat (map Fields (chunkContent content)) = Fields content"
proof (cases "length (Fields content) \<le> maxWordsPerChunk")
  case True
  then show ?thesis by (simp add: chunkContent_def Let_def)
next
  case False
  have "concat (map Fields (chunkLoop (Fields content) 0)) = Fields content"
    using chunkLoop_words [OF Fields_words, of content 0] by (simp only: drop_0)
  with False show ?thesis by (simp add: chunkContent_def Let_def)
qed

lemma noSpaceIn_w: "noSpaceIn ''w''"
  by (simp add: noSpaceIn_def spaceWidth_def spaceEncodings_def HasPrefix_def)

lemma Fields_many: "Fields (Join (replicate n ''w'') '' '') = replicate n ''w''"
  unfolding Fields_def by (rule Fields_Join) (simp add: noSpaceIn_w)

lemma chunks_7001:
  "chunkContent (Join (replicate 7001 ''w'') '' '') = [Join (replicate 7000 ''w'') '' '', ''w'']"
proof -
  have a: "chunkLoop (replicate 7001 ''w'') 0 =
      Join (replicate 7000 ''w'') '' '' # chunkLoop (replicate 7001 ''w'') 7000"
    using chunkLoop_unfold [of 0 "replicate 7001 ''w''"] by (simp add: maxWordsPerChunk_def)
  have b: "chunkLoop (replicate 7001 ''w'') 7000 = ''w'' # chunkLoop (replicate 7001 ''w'') 14000"
    using chunkLoop_unfold [of 7000 "replicate 7001 ''w''"] by (simp add: maxWordsPerChunk_def)
  have c: "chunkLoop (replicate 7001 ''w'') 14000 = []"
    by (rule chunkLoop_done) simp
  show ?thesis
    by (simp add: chunkContent_def Fields_many maxWordsPerChunk_def a b c)
qed

theorem chunkContent_bounded_witness:
  "chunkContent ''alpha beta  gamma'' = [''alpha beta  gamma'']
   \<and> chunkContent (Join (replicate 7001 ''w'') '' '') = [Join (replicate 7000 ''w'') '' '', ''w'']
   \<and> length (Fields (Join (replicate 7000 ''w'') '' '')) \<le> 7000
   \<and> length (Fields ''w'') \<le> 7000"
proof -
  have n: "length (Fields ''alpha beta  gamma'') = 3" by code_simp
  from n chunkContent_bounded [of "''alpha beta  gamma''"]
  have one: "chunkContent ''alpha beta  gamma'' = [''alpha beta  gamma'']" by simp
  from chunkContent_bounded [of "Join (replicate 7001 ''w'') '' ''"]
  have "\<forall>c \<in> set [Join (replicate 7000 ''w'') '' '', ''w'']. length (Fields c) \<le> 7000"
    unfolding chunks_7001 by (rule conjunct1)
  with one chunks_7001 show ?thesis by simp
qed

theorem chunkContent_words_witness:
  "concat (map Fields [Join (replicate 7000 ''w'') '' '', ''w'']) = replicate 7001 ''w''"
  using chunkContent_words [of "Join (replicate 7001 ''w'') '' ''"]
  by (simp only: chunks_7001 Fields_many)

section \<open>Query (C1, C6, C7)\<close>






lemma example_query_embedding:
  "GenerateEmbedding exampleEnv ''when do we deploy billing?''
     = (Inr [1, 0], [''when do we deploy billing?''])"
  by code_simp




lemma example_answer:
  "\<exists>chats. generateAnswer exampleEnv q [deployMessage] = (Inr ''Deploys run on Fridays [1].'', chats)"
  by (simp add: generateAnswer_def callOpenAIAPI_def exampleEnv_def Let_def)




lemma relevantAbove_quality:
  "list_all (\<lambda>m. isQualityContent e (Content m)) (relevantAbove e thr q messages i)"
  by (induction messages arbitrary: i) auto

text \<open>
  Claim C6. When the primary filter (similarity above 0.75 and quality content) keeps no
  candidate, which is the case in particular when no candidate passes the primary
  threshold, \<open>Query\<close> filters the same candidates again with the relaxed threshold 0.6
  and the same quality test, and goes on with what that keeps: the fixed answer only if
  this second list is empty too, the synthesized answer with these sources otherwise.
\<close>

theorem Query_relaxed_fallback:
  assumes "GenerateEmbedding e query = (Inr q, calls)"
    and "SearchSimilarMessages e s q 10 = Inr messages"
    and "relevantAbove e primaryThreshold q messages 0 = []"
  shows "RAGService_Query e s query =
     (let relaxed = relevantAbove e relaxedThreshold q messages 0 in
      if relaxed = [] then
        (Inr \<lparr>Answer = noInformationAnswer, Sources = [], Query = query\<rparr>, calls, [])
      else
        (case generateAnswer e query relaxed of
           (Inl err, chats) \<Rightarrow> (Inl (Wrapped ''failed to generate answer'' err), calls, chats)
         | (Inr answer, chats) \<Rightarrow>
             (Inr \<lparr>Answer = answer, Sources = relaxed, Query = query\<rparr>, calls, chats)))
   \<and> list_all (\<lambda>m. isQualityContent e (Content m)) (relevantAbove e relaxedThreshold q messages 0)"
  using assms
  by (simp add: RAGService_Query_def Let_def relevantAbove_quality del: relevantAbove.simps)

lemma deploy_search:
  "SearchSimilarMessages exampleEnv deployStore [1, 0] 10 = Inr (slack_messages deployStore)"
  by (simp add: SearchSimilarMessages_def deployStore_def quietStore_def exampleEnv_def
      exampleChunk_def deployMessage_def exampleMessage_def)

lemma deploy_strict:
  "relevantAbove exampleEnv primaryThreshold [1, 0] (slack_messages deployStore) 0 = []"
  by code_simp

lemma deploy_relaxed:
  "relevantAbove exampleEnv relaxedThreshold [1, 0] (slack_messages deployStore) 0 = [deployMessage]"
  by code_simp

theorem Query_relaxed_fallback_witness:
  "relevantAbove exampleEnv primaryThreshold [1, 0] (slack_messages deployStore) 0 = []
   \<and> fst (RAGService_Query exampleEnv deployStore ''when do we deploy billing?'')
       = Inr \<lparr>Answer = ''Deploys run on Fridays [1].'', Sources = [deployMessage],
              Query = ''when do we deploy billing?''\<rparr>"
proof -
  obtain chats where "generateAnswer exampleEnv ''when do we deploy billing?'' [deployMessage]
      = (Inr ''Deploys run on Fridays [1].'', chats)"
    using example_answer by blast
  with Query_relaxed_fallback [OF example_query_embedding deploy_search deploy_strict]
  show ?thesis
    by (simp add: deploy_relaxed deploy_strict Let_def)
qed

text \<open>
  Claim C7. When both filters keep nothing, \<open>Query\<close> returns, as a result and not as an
  error, the fixed answer with no sources, and the list of its calls of the chat
  completion API is empty. The earlier \<open>Query\<close> over the document store does the same
  when no document is above its threshold.
\<close>

theorem Query_no_relevant_information:
  "(GenerateEmbedding e query = (Inr q, calls)
      \<and> SearchSimilarMessages e s q 10 = Inr messages
      \<and> relevantAbove e primaryThreshold q messages 0 = []
      \<and> relevantAbove e relaxedThreshold q messages 0 = []
    \<longrightarrow> RAGService_Query e s query =
          (Inr \<lparr>Answer = ''I couldn't find any relevant information to answer your question.'',
                 Sources = [], Query = query\<rparr>, calls, []))
   \<and> (GenerateEmbedding e query = (Inr q, calls)
      \<and> SearchSimilar e d q 10 = Inr docs
      \<and> filter (\<lambda>doc. Similarity doc > documentThreshold) docs = []
    \<longrightarrow> RAGService_Query_documents e d query =
          (Inr \<lparr>DocAnswer = ''I couldn't find any relevant information to answer your question.'',
                 DocSources = [], DocQuery = query\<rparr>, calls, []))"
  by (simp add: RAGService_Query_def RAGService_Query_documents_def noInformationAnswer_def
      Let_def del: relevantAbove.simps)

lemma quiet_search:
  "SearchSimilarMessages exampleEnv quietStore [1, 0] 10 = Inr (slack_messages quietStore)"
  by (simp add: SearchSimilarMessages_def quietStore_def exampleEnv_def
      exampleChunk_def exampleMessage_def)

lemma quiet_strict:
  "relevantAbove exampleEnv primaryThreshold [1, 0] (slack_messages quietStore) 0 = []"
  by code_simp

lemma quiet_relaxed:
  "relevantAbove exampleEnv relaxedThreshold [1, 0] (slack_messages quietStore) 0 = []"
  by code_simp

lemma orthogonal_documents_search:
  "SearchSimilar exampleEnv orthogonalDocuments [1, 0] 10 =
     Inr [(scanDocument (hd (documents orthogonalDocuments)))\<lparr>Embedding := [0, 1], Similarity := 0\<rparr>]"
  by (simp add: SearchSimilar_def orthogonalDocuments_def exampleEnv_def exampleRow_def
      cosine_distance_def dot_def)

theorem Query_no_relevant_information_witness:
  "RAGService_Query exampleEnv quietStore ''when do we deploy billing?'' =
     (Inr \<lparr>Answer = ''I couldn't find any relevant information to answer your question.'',
            Sources = [], Query = ''when do we deploy billing?''\<rparr>,
      [''when do we deploy billing?''], [])
   \<and> RAGService_Query_documents exampleEnv orthogonalDocuments ''when do we deploy billing?'' =
     (Inr \<lparr>DocAnswer = ''I couldn't find any relevant information to answer your question.'',
            DocSources = [], DocQuery = ''when do we deploy billing?''\<rparr>,
      [''when do we deploy billing?''], [])"
proof -
  have "filter (\<lambda>doc. Similarity doc > documentThreshold)
      [(scanDocument (hd (documents orthogonalDocuments)))\<lparr>Embedding := [0, 1], Similarity := 0\<rparr>] = []"
    by (simp add: documentThreshold_def)
  with Query_no_relevant_information [of exampleEnv "''when do we deploy billing?''" "[1, 0]"
      "[''when do we deploy billing?'']" quietStore "slack_messages quietStore" orthogonalDocuments
      "[(scanDocument (hd (documents orthogonalDocuments)))\<lparr>Embedding := [0, 1], Similarity := 0\<rparr>]"]
  show ?thesis
    using example_query_embedding quiet_search quiet_strict quiet_relaxed orthogonal_documents_search
    by blast
qed

section \<open>The document embedding job\<close>

lemma TrimLeftSpace_head: "spaceWidth (TrimLeftSpace s) = 0"
  by (induction s rule: TrimLeftSpace.induct) (subst TrimLeftSpace.simps, simp)

lemma TrimRightSpace_last: "spaceWidthLast (TrimRightSpace s) = 0"
  by (induction s rule: TrimRightSpace.induct) (subst TrimRightSpace.simps, simp)

lemma TrimRightSpace_noop: "spaceWidthLast s = 0 \<Longrightarrow> TrimRightSpace s = s"
  by (subst TrimRightSpace.simps) simp

lemma TrimLeftSpace_noop: "spaceWidth s = 0 \<Longrightarrow> TrimLeftSpace s = s"
  by (subst TrimLeftSpace.simps) simp

lemma TrimRightSpace_step:
  "spaceWidthLast s \<noteq> 0 \<Longrightarrow> TrimRightSpace s = TrimRightSpace (take (length s - spaceWidthLast s) s)"
  by (subst TrimRightSpace.simps) simp

lemma TrimRightSpace_take: "\<exists>k. TrimRightSpace s = take k s"
proof (induction s rule: TrimRightSpace.induct)
  case (1 s)
  show ?case
  proof (cases "spaceWidthLast s = 0")
    case True
    then have "TrimRightSpace s = take (length s) s"
      by (simp add: TrimRightSpace_noop)
    then show ?thesis by blast
  next
    case False
    from 1 [OF False] obtain k where
      "TrimRightSpace (take (length s - spaceWidthLast s) s) = take k (take (length s - spaceWidthLast s) s)"
      by blast
    with TrimRightSpace_step [OF False]
    have "TrimRightSpace s = take (min k (length s - spaceWidthLast s)) s"
      by (simp only: take_take)
    then show ?thesis by blast
  qed
qed

lemma truncateText_short: "length t \<le> 32000 \<Longrightarrow> truncateText t = t"
  unfolding truncateText_def by (simp only: not_less [symmetric] if_False)

lemma HasPrefix_take: "HasPrefix (take k s) e \<Longrightarrow> HasPrefix s e"
proof -
  assume a: "HasPrefix (take k s) e"
  then have eq: "take (length e) (take k s) = e"
    by (simp only: HasPrefix_def)
  then have "length (take (length e) (take k s)) = length e"
    by (simp only:)
  then have "length e \<le> k" by (simp only: length_take)
  then have "take (length e) (take k s) = take (length e) s"
    by (simp only: take_take min_absorb1)
  with eq show ?thesis by (simp only: HasPrefix_def)
qed

lemma spaceWidth_take: "spaceWidth s = 0 \<Longrightarrow> spaceWidth (take k s) = 0"
  unfolding spaceWidth_0_iff using HasPrefix_take by blast

lemma TrimSpace_idem: "TrimSpace (TrimSpace s) = TrimSpace s"
proof -
  obtain k where k: "TrimRightSpace (TrimLeftSpace s) = take k (TrimLeftSpace s)"
    using TrimRightSpace_take by blast
  have "spaceWidth (TrimSpace s) = 0"
    unfolding TrimSpace_def k by (rule spaceWidth_take) (rule TrimLeftSpace_head)
  then have l: "TrimLeftSpace (TrimSpace s) = TrimSpace s"
    by (rule TrimLeftSpace_noop)
  have "spaceWidthLast (TrimSpace s) = 0"
    unfolding TrimSpace_def by (rule TrimRightSpace_last)
  then have r: "TrimRightSpace (TrimSpace s) = TrimSpace s"
    by (rule TrimRightSpace_noop)
  have "TrimSpace (TrimSpace s) = TrimRightSpace (TrimLeftSpace (TrimSpace s))"
    by (rule TrimSpace_def)
  then show ?thesis by (simp only: l r)
qed

lemma GenerateEmbedding_calls:
  assumes "TrimSpace t = t" "t \<noteq> []"
  shows "snd (GenerateEmbedding e t) = [truncateText t]"
  using assms
  by (simp add: GenerateEmbedding_def Let_def split: option.splits list.splits)

lemma unitVector_length: "length unitVector = embeddingDimension"
  by (simp add: unitVector_def embeddingDimension_def)

lemma placeholder_refused:
  "fst (UpdateEmbedding e s i [0]) \<noteq> None" "snd (UpdateEmbedding e s i [0]) = s"
  by (simp_all add: UpdateEmbedding_def embeddingDimension_def)

lemma processDocument_rejected:
  assumes "length (TrimSpace (DocContent doc)) < 10"
  shows "fst (processDocument e s doc) \<noteq> None" "snd (processDocument e s doc) = (s, [])"
proof -
  from assms have eq: "processDocument e s doc =
      (fst (UpdateEmbedding e s (DocID doc) [0]), snd (UpdateEmbedding e s (DocID doc) [0]), [])"
    by (simp add: processDocument_def Let_def case_prod_beta)
  show "fst (processDocument e s doc) \<noteq> None"
    unfolding eq fst_conv by (rule placeholder_refused(1))
  show "snd (processDocument e s doc) = (s, [])"
    unfolding eq snd_conv by (simp only: placeholder_refused(2))
qed

lemma processDocument_accepted:
  assumes "10 \<le> length (TrimSpace (DocContent doc))"
  shows "snd (snd (processDocument e s doc)) = [truncateText (TrimSpace (DocContent doc))]"
proof -
  from assms have ne: "TrimSpace (DocContent doc) \<noteq> []" by auto
  have "snd (snd (processDocument e s doc)) = snd (GenerateEmbedding e (TrimSpace (DocContent doc)))"
    using assms ne
    by (simp add: processDocument_def Let_def case_prod_beta split: sum.splits prod.splits)
  also have "\<dots> = [truncateText (TrimSpace (DocContent doc))]"
    using TrimSpace_idem ne by (rule GenerateEmbedding_calls)
  finally show ?thesis .
qed

lemma processDocuments_short:
  assumes "\<forall>doc \<in> set docs. length (TrimSpace (DocContent doc)) < 10"
  shows "processDocuments e s docs = (s, [])"
  using assms
proof (induction docs)
  case Nil
  show ?case by simp
next
  case (Cons doc docs)
  then have "length (TrimSpace (DocContent doc)) < 10" by simp
  from processDocument_rejected(2) [OF this, of e s]
  obtain err where "processDocument e s doc = (err, s, [])"
    by (cases "processDocument e s doc") auto
  with Cons show ?case by simp
qed

lemma fetched_short:
  assumes "\<forall>r \<in> set (documents s). row_embedding r = None
             \<longrightarrow> length (TrimSpace (row_content r)) < 10"
    and "GetDocumentsWithoutEmbeddings e s n = Inr docs"
  shows "\<forall>doc \<in> set docs. length (TrimSpace (DocContent doc)) < 10"
proof
  fix doc
  assume "doc \<in> set docs"
  with assms(2) obtain r where
    r: "r \<in> set (take n (sort_key row_created_at
                   (filter (\<lambda>r. row_embedding r = None) (documents s))))"
      "doc = scanDocument r"
    by (auto simp add: GetDocumentsWithoutEmbeddings_def split: if_splits)
  from r(1) have "r \<in> set (sort_key row_created_at
                   (filter (\<lambda>r. row_embedding r = None) (documents s)))"
    by (rule in_set_takeD)
  then have "r \<in> set (documents s)" "row_embedding r = None" by auto
  with assms(1) have "length (TrimSpace (row_content r)) < 10" by blast
  with r(2) show "length (TrimSpace (DocContent doc)) < 10"
    by (simp add: scanDocument_def)
qed

lemma processBatch_short:
  assumes "\<forall>r \<in> set (documents s). row_embedding r = None
             \<longrightarrow> length (TrimSpace (row_content r)) < 10"
  shows "snd (processBatch e n s) = (s, [])"
proof (cases "GetDocumentsWithoutEmbeddings e s n")
  case (Inl err)
  then show ?thesis by (simp add: processBatch_def)
next
  case (Inr docs)
  from fetched_short [OF assms Inr] have "processDocuments e s docs = (s, [])"
    by (rule processDocuments_short)
  with Inr show ?thesis by (simp add: processBatch_def)
qed

lemma ticks_short:
  assumes "\<forall>r \<in> set (documents s). row_embedding r = None
             \<longrightarrow> length (TrimSpace (row_content r)) < 10"
  shows "runDocumentStore (map (\<lambda>(e, n). Tick e n) ticks) s = s"
proof (induction ticks)
  case Nil
  show ?case by simp
next
  case (Cons t ticks)
  obtain e n where t: "t = (e, n)" by (cases t)
  from Cons show ?case
    by (simp add: t processBatch_short [OF assms])
qed

text \<open>
  Claim C8. The quality gate of the document job is at ten bytes of trimmed content, and
  what it rejects is not marked. A document whose trimmed content has ten bytes or more is
  sent to the embedding provider, once (trimmed, and cut to the provider's limit). A
  document whose trimmed content has fewer than ten bytes is not sent; the job calls
  \<open>UpdateEmbedding\<close> with the one-element vector \<open>[0.0]\<close>, which the column
  \<open>vector(1536)\<close> does not take: the call fails, \<open>processDocument\<close> returns the error and the
  table is left as it was. So a table whose rows without a vector are all below the gate
  is left as it was by any number of ticks of \<open>processBatch\<close>, and
  \<open>GetDocumentsWithoutEmbeddings\<close> selects the same documents again.
\<close>

theorem quality_gate_boundary:
  "(10 \<le> length (TrimSpace (DocContent doc))
      \<longrightarrow> snd (snd (processDocument e s doc)) = [truncateText (TrimSpace (DocContent doc))])
   \<and> (length (TrimSpace (DocContent doc)) < 10
      \<longrightarrow> fst (processDocument e s doc) \<noteq> None \<and> snd (processDocument e s doc) = (s, []))
   \<and> ((\<forall>r \<in> set (documents s). row_embedding r = None
           \<longrightarrow> length (TrimSpace (row_content r)) < 10)
      \<longrightarrow> runDocumentStore (map (\<lambda>(e, n). Tick e n) ticks) s = s)"
  using processDocument_accepted [of doc e s] processDocument_rejected [of doc e s]
    ticks_short [of s ticks]
  by blast

lemma short_trim: "TrimSpace (DocContent shortDocument) = ''short msg''"
  by code_simp

lemma borderline_trim: "TrimSpace (DocContent borderlineDocument) = ''exactly10c''"
  by code_simp

lemma short_row_trim: "TrimSpace ''short msg'' = ''short msg''"
  by code_simp

lemma short_processed:
  "processDocument fullSizeEnv shortBacklog shortDocument =
     (Some (Wrapped ''failed to update embedding'' (DimensionMismatch 1536 1)), shortBacklog, [])"
proof -
  have "length (TrimSpace (DocContent shortDocument)) < 10" by (simp add: short_trim)
  then have "processDocument fullSizeEnv shortBacklog shortDocument =
      (fst (UpdateEmbedding fullSizeEnv shortBacklog (DocID shortDocument) [0]),
       snd (UpdateEmbedding fullSizeEnv shortBacklog (DocID shortDocument) [0]), [])"
    by (simp add: processDocument_def Let_def case_prod_beta)
  then show ?thesis
    by (simp add: UpdateEmbedding_def embeddingDimension_def fullSizeEnv_def exampleEnv_def)
qed

theorem quality_gate_boundary_witness:
  "length ''exactly10c'' = 10
   \<and> snd (snd (processDocument fullSizeEnv backlogStore borderlineDocument)) = [''exactly10c'']
   \<and> length ''short msg'' = 9
   \<and> processDocument fullSizeEnv shortBacklog shortDocument =
       (Some (Wrapped ''failed to update embedding'' (DimensionMismatch 1536 1)), shortBacklog, [])
   \<and> runDocumentStore [Tick fullSizeEnv 10, Tick laterEnv 10, Tick fullSizeEnv 10] shortBacklog
       = shortBacklog
   \<and> GetDocumentsWithoutEmbeddings fullSizeEnv shortBacklog 10 = Inr [shortDocument]"
proof -
  have long: "10 \<le> length (TrimSpace (DocContent borderlineDocument))"
    by (simp add: borderline_trim)
  from quality_gate_boundary [of borderlineDocument fullSizeEnv backlogStore] long
  have "snd (snd (processDocument fullSizeEnv backlogStore borderlineDocument))
      = [truncateText (TrimSpace (DocContent borderlineDocument))]"
    by blast
  then have a: "snd (snd (processDocument fullSizeEnv backlogStore borderlineDocument)) = [''exactly10c'']"
    by (simp add: borderline_trim truncateText_short)
  have pending: "\<forall>r \<in> set (documents shortBacklog). row_embedding r = None
      \<longrightarrow> length (TrimSpace (row_content r)) < 10"
    by (simp add: shortBacklog_def exampleRow_def short_row_trim)
  have "map (\<lambda>(e, n). Tick e n) [(fullSizeEnv, 10), (laterEnv, 10), (fullSizeEnv, 10)]
      = [Tick fullSizeEnv 10, Tick laterEnv 10, Tick fullSizeEnv 10]"
    by simp
  with quality_gate_boundary [of shortDocument fullSizeEnv shortBacklog
      "[(fullSizeEnv, 10), (laterEnv, 10), (fullSizeEnv, 10)]"] pending
  have b: "runDocumentStore [Tick fullSizeEnv 10, Tick laterEnv 10, Tick fullSizeEnv 10] shortBacklog
       = shortBacklog"
    by (simp only:)
  have c: "GetDocumentsWithoutEmbeddings fullSizeEnv shortBacklog 10 = Inr [shortDocument]"
    by (simp add: GetDocumentsWithoutEmbeddings_def fullSizeEnv_def exampleEnv_def
      shortBacklog_def shortDocument_def exampleRow_def)
  from a b c short_processed show ?thesis
    by simp
qed

text \<open>
  The gate counts bytes, not characters. The document of \<open>accentedStore\<close> has the nine
  characters \<open>h\<close>, e with acute accent, \<open>llo wor\<close>, which take ten bytes in UTF-8 (the
  accented letter is \<open>0xC3 0xA9\<close>): it is sent to the provider and stored with the
  provider's vector.
\<close>

lemma accented_trim:
  "TrimSpace (DocContent accentedDocument) = ''h'' @ [CHR 0xC3, CHR 0xA9] @ ''llo wor''"
  by code_simp

lemma accented_embedding:
  "GenerateEmbedding fullSizeEnv (TrimSpace (DocContent accentedDocument))
     = (Inr unitVector, [''h'' @ [CHR 0xC3, CHR 0xA9] @ ''llo wor''])"
proof -
  have "TrimSpace (TrimSpace (DocContent accentedDocument)) = TrimSpace (DocContent accentedDocument)"
    by (rule TrimSpace_idem)
  then show ?thesis
    unfolding GenerateEmbedding_def Let_def
    by (simp add: accented_trim truncateText_short fullSizeEnv_def exampleEnv_def)
qed

lemma quality_gate_counts_bytes:
  "utf8Characters (TrimSpace (DocContent accentedDocument)) = 9
   \<and> length (TrimSpace (DocContent accentedDocument)) = 10
   \<and> processDocument fullSizeEnv accentedStore accentedDocument =
       (None,
        \<lparr>documents =
          [(exampleRow ''slack_C1_3'' ''3'' (''h'' @ [CHR 0xC3, CHR 0xA9] @ ''llo wor'') ''h3''
              (Some unitVector))\<lparr>row_updated_at := 100\<rparr>]\<rparr>,
        [''h'' @ [CHR 0xC3, CHR 0xA9] @ ''llo wor''])"
proof -
  have len: "length (TrimSpace (DocContent accentedDocument)) = 10"
    by (simp add: accented_trim)
  have "processDocument fullSizeEnv accentedStore accentedDocument =
       (None,
        \<lparr>documents =
          [(exampleRow ''slack_C1_3'' ''3'' (''h'' @ [CHR 0xC3, CHR 0xA9] @ ''llo wor'') ''h3''
              (Some unitVector))\<lparr>row_updated_at := 100\<rparr>]\<rparr>,
        [''h'' @ [CHR 0xC3, CHR 0xA9] @ ''llo wor''])"
  proof -
    have "processDocument fullSizeEnv accentedStore accentedDocument =
        (fst (UpdateEmbedding fullSizeEnv accentedStore (DocID accentedDocument) unitVector),
         snd (UpdateEmbedding fullSizeEnv accentedStore (DocID accentedDocument) unitVector),
         [''h'' @ [CHR 0xC3, CHR 0xA9] @ ''llo wor''])"
      unfolding processDocument_def Let_def accented_embedding
      by (simp add: len accented_trim case_prod_beta)
    then show ?thesis
      by (simp add: UpdateEmbedding_def unitVector_length fullSizeEnv_def exampleEnv_def
        accentedStore_def accentedDocument_def scanDocument_def exampleRow_def)
  qed
  then show ?thesis
    by (simp add: accented_trim utf8Characters_def)
qed

section \<open>Upserts\<close>

lemma sameMessage_key:
  "sameMessage a b = ((ChannelID b, MessageTimestamp b) = (ChannelID a, MessageTimestamp a))"
  by (auto simp add: sameMessage_def)

lemma find_None_keys:
  "(find (sameMessage msg) (slack_messages s) = None)
     = ((ChannelID msg, MessageTimestamp msg) \<notin> set (messageKeys s))"
  by (auto simp add: find_None_iff messageKeys_def sameMessage_def)

lemma update_keeps_keys:
  "map (\<lambda>m. (ChannelID m, MessageTimestamp m))
     (map (\<lambda>x. if P x then x\<lparr>Content := c, ContentHash := h, UpdatedAt := t\<rparr> else x) xs)
   = map (\<lambda>m. (ChannelID m, MessageTimestamp m)) xs"
  by (induction xs) auto

lemma update_keeps_ids:
  "map ID (map (\<lambda>x. if P x then x\<lparr>Content := c, ContentHash := h, UpdatedAt := t\<rparr> else x) xs)
   = map ID xs"
  by (induction xs) auto

lemma StoreMessage_first:
  assumes "StoreMessage e s msg = (Inr (m, w), s')"
  shows "w = ((ChannelID msg, MessageTimestamp msg) \<notin> set (messageKeys s))"
    and "messageKeys s' =
           (if w then messageKeys s @ [(ChannelID msg, MessageTimestamp msg)] else messageKeys s)"
proof -
  let ?msg = "msg\<lparr>ContentHash := sha256hex e (Content msg)\<rparr>"
  have k: "sameMessage ?msg = sameMessage msg"
    by (rule ext) (simp add: sameMessage_def)
  show "w = ((ChannelID msg, MessageTimestamp msg) \<notin> set (messageKeys s))"
    using assms unfolding StoreMessage_def Let_def k find_None_keys [symmetric]
    by (auto split: if_splits option.splits)
  show "messageKeys s' =
           (if w then messageKeys s @ [(ChannelID msg, MessageTimestamp msg)] else messageKeys s)"
    using assms unfolding StoreMessage_def Let_def k
    by (auto simp add: messageKeys_def update_keeps_keys split: if_splits option.splits)
qed

lemma StoreMessage_second:
  assumes "(ChannelID msg, MessageTimestamp msg) \<in> set (messageKeys s)"
    and "\<not> dbRefuses e (UpsertMessage (ChannelID msg) (MessageTimestamp msg))"
  shows "\<exists>m s'. StoreMessage e s msg = (Inr (m, False), s')
           \<and> UpdatedAt m = dbNow e
           \<and> messageKeys s' = messageKeys s
           \<and> map ID (slack_messages s') = map ID (slack_messages s)
           \<and> (\<forall>r \<in> set (slack_messages s'). sameMessage msg r
                 \<longrightarrow> Content r = Content msg \<and> UpdatedAt r = dbNow e)"
proof -
  let ?msg = "msg\<lparr>ContentHash := sha256hex e (Content msg)\<rparr>"
  have k: "sameMessage ?msg = sameMessage msg"
    by (rule ext) (simp add: sameMessage_def)
  from assms(1) obtain r where r: "find (sameMessage msg) (slack_messages s) = Some r"
    using find_None_keys [of msg s] by (cases "find (sameMessage msg) (slack_messages s)") auto
  show ?thesis
    using assms(2) r unfolding StoreMessage_def Let_def k
    by (auto simp add: messageKeys_def update_keeps_keys update_keeps_ids)
qed

lemma one_of_distinct:
  assumes "distinct (map f xs)" "k \<in> set (map f xs)"
  shows "length (filter (\<lambda>x. f x = k) xs) = 1"
  using assms
proof (induction xs)
  case Nil then show ?case by simp
next
  case (Cons x xs)
  show ?case
  proof (cases "f x = k")
    case True
    with Cons.prems(1) have "\<forall>y \<in> set xs. f y \<noteq> k" by (auto simp add: image_iff)
    then have "filter (\<lambda>x. f x = k) xs = []" by (simp add: filter_empty_conv)
    with True show ?thesis by simp
  next
    case False
    with Cons show ?thesis by auto
  qed
qed

lemma find_None_documentKeys:
  "(find (sameContent doc) (documents s) = None)
     = ((DocContentHash doc, Source doc, SourceID doc) \<notin> set (documentKeys s))"
  by (force simp add: find_None_iff documentKeys_def sameContent_def image_iff)

lemma update_keeps_documentKeys:
  "map (\<lambda>r. (row_content_hash r, row_source r, row_source_id r))
     (map (\<lambda>x. if P x then x\<lparr>row_content := c, row_title := h, row_updated_at := t\<rparr> else x) xs)
   = map (\<lambda>r. (row_content_hash r, row_source r, row_source_id r)) xs"
  by (induction xs) auto

lemma update_keeps_row_ids:
  "map row_id (map (\<lambda>x. if P x then x\<lparr>row_content := c, row_title := h, row_updated_at := t\<rparr> else x) xs)
   = map row_id xs"
  by (induction xs) auto

lemma StoreDocument_first:
  assumes "StoreDocument e s doc = (None, s')"
  shows "documentKeys s' =
           (if (DocContentHash doc, Source doc, SourceID doc) \<in> set (documentKeys s)
            then documentKeys s
            else documentKeys s @ [(DocContentHash doc, Source doc, SourceID doc)])"
  using assms unfolding StoreDocument_def find_None_documentKeys
  by (auto simp add: documentKeys_def update_keeps_documentKeys split: if_splits)

lemma StoreDocument_dimension:
  assumes "StoreDocument e s doc = (None, s')"
  shows "\<not> (length (Embedding doc) > 0 \<and> length (Embedding doc) \<noteq> embeddingDimension)"
  using assms unfolding StoreDocument_def
  by (auto split: if_splits)

lemma StoreDocument_second:
  assumes "(DocContentHash doc, Source doc, SourceID doc) \<in> set (documentKeys s)"
    and "\<not> dbRefuses e (UpsertDocument (DocID doc))"
    and "\<not> (length (Embedding doc) > 0 \<and> length (Embedding doc) \<noteq> embeddingDimension)"
  shows "\<exists>s'. StoreDocument e s doc = (None, s')
           \<and> documentKeys s' = documentKeys s
           \<and> map row_id (documents s') = map row_id (documents s)
           \<and> (\<forall>r \<in> set (documents s'). sameContent doc r
                 \<longrightarrow> row_content r = DocContent doc \<and> row_updated_at r = dbNow e)"
  using assms unfolding StoreDocument_def find_None_documentKeys
  by (auto simp add: documentKeys_def update_keeps_documentKeys update_keeps_row_ids sameContent_def)

text \<open>
  Claim C4. Storing the same message, or the same document, twice leaves exactly one row
  for it. In a table that respects its unique index, after a first call that succeeded, a
  second call with the same argument (which succeeds unless the database refuses the
  statement) adds no row: it rewrites the row in place, sets its \<open>updated_at\<close> to the
  time of the second call, and one row carries the key. \<open>StoreMessage\<close> reports
  \<open>wasInserted\<close> on the first call exactly when no row had the key before, and never on
  the second. \<open>StoreDocument\<close> returns no such flag; its first call adds a row exactly
  when no row had the key before.
\<close>

theorem upsert_twice_one_row:
  "(distinct (messageKeys s) \<and> StoreMessage e1 s msg = (Inr (m1, w1), s1)
      \<and> \<not> dbRefuses e2 (UpsertMessage (ChannelID msg) (MessageTimestamp msg))
    \<longrightarrow> w1 = ((ChannelID msg, MessageTimestamp msg) \<notin> set (messageKeys s))
        \<and> (\<exists>m2 s2. StoreMessage e2 s1 msg = (Inr (m2, False), s2)
              \<and> UpdatedAt m2 = dbNow e2
              \<and> length (filter (sameMessage msg) (slack_messages s2)) = 1
              \<and> distinct (messageKeys s2)
              \<and> map ID (slack_messages s2) = map ID (slack_messages s1)
              \<and> (\<forall>r \<in> set (slack_messages s2). sameMessage msg r
                    \<longrightarrow> Content r = Content msg \<and> UpdatedAt r = dbNow e2)))
   \<and> (distinct (documentKeys t) \<and> StoreDocument e1 t doc = (None, t1)
        \<and> \<not> dbRefuses e2 (UpsertDocument (DocID doc))
      \<longrightarrow> length (documents t1) =
            (if (DocContentHash doc, Source doc, SourceID doc) \<in> set (documentKeys t)
             then length (documents t) else length (documents t) + 1)
          \<and> (\<exists>t2. StoreDocument e2 t1 doc = (None, t2)
                \<and> length (filter (sameContent doc) (documents t2)) = 1
                \<and> distinct (documentKeys t2)
                \<and> map row_id (documents t2) = map row_id (documents t1)
                \<and> (\<forall>r \<in> set (documents t2). sameContent doc r
                      \<longrightarrow> row_content r = DocContent doc \<and> row_updated_at r = dbNow e2)))"
proof (intro conjI impI)
  assume a: "distinct (messageKeys s) \<and> StoreMessage e1 s msg = (Inr (m1, w1), s1)
      \<and> \<not> dbRefuses e2 (UpsertMessage (ChannelID msg) (MessageTimestamp msg))"
  then have st: "StoreMessage e1 s msg = (Inr (m1, w1), s1)" by simp
  from StoreMessage_first(1) [OF st]
  show w: "w1 = ((ChannelID msg, MessageTimestamp msg) \<notin> set (messageKeys s))" .
  from StoreMessage_first(2) [OF st] w a
  have d1: "distinct (messageKeys s1)"
    and in1: "(ChannelID msg, MessageTimestamp msg) \<in> set (messageKeys s1)"
    by auto
  from a have "\<not> dbRefuses e2 (UpsertMessage (ChannelID msg) (MessageTimestamp msg))" by simp
  from StoreMessage_second [OF in1 this] obtain m2 s2 where
    r: "StoreMessage e2 s1 msg = (Inr (m2, False), s2)" "UpdatedAt m2 = dbNow e2"
      "messageKeys s2 = messageKeys s1" "map ID (slack_messages s2) = map ID (slack_messages s1)"
      "\<forall>r \<in> set (slack_messages s2). sameMessage msg r
          \<longrightarrow> Content r = Content msg \<and> UpdatedAt r = dbNow e2"
    by blast
  from d1 in1 r(3) 
  have "length (filter (\<lambda>x. (ChannelID x, MessageTimestamp x) = (ChannelID msg, MessageTimestamp msg))
            (slack_messages s2)) = 1"
    unfolding messageKeys_def by (intro one_of_distinct) simp_all
  then have one: "length (filter (sameMessage msg) (slack_messages s2)) = 1"
    by (simp add: sameMessage_key [abs_def])
  from r d1 one
  show "\<exists>m2 s2. StoreMessage e2 s1 msg = (Inr (m2, False), s2)
              \<and> UpdatedAt m2 = dbNow e2
              \<and> length (filter (sameMessage msg) (slack_messages s2)) = 1
              \<and> distinct (messageKeys s2)
              \<and> map ID (slack_messages s2) = map ID (slack_messages s1)
              \<and> (\<forall>r \<in> set (slack_messages s2). sameMessage msg r
                    \<longrightarrow> Content r = Content msg \<and> UpdatedAt r = dbNow e2)"
    by auto
next
  assume a: "distinct (documentKeys t) \<and> StoreDocument e1 t doc = (None, t1)
        \<and> \<not> dbRefuses e2 (UpsertDocument (DocID doc))"
  then have st: "StoreDocument e1 t doc = (None, t1)" by simp
  note k1 = StoreDocument_first [OF st]
  have "length (documents t1) = length (documentKeys t1)" "length (documents t) = length (documentKeys t)"
    by (simp_all add: documentKeys_def)
  with k1 show "length (documents t1) =
            (if (DocContentHash doc, Source doc, SourceID doc) \<in> set (documentKeys t)
             then length (documents t) else length (documents t) + 1)"
    by simp
  from k1 a
  have d1: "distinct (documentKeys t1)"
    and in1: "(DocContentHash doc, Source doc, SourceID doc) \<in> set (documentKeys t1)"
    by (auto split: if_splits)
  from a have "\<not> dbRefuses e2 (UpsertDocument (DocID doc))" by simp
  from StoreDocument_second [OF in1 this StoreDocument_dimension [OF st]] obtain t2 where
    r: "StoreDocument e2 t1 doc = (None, t2)"
      "documentKeys t2 = documentKeys t1" "map row_id (documents t2) = map row_id (documents t1)"
      "\<forall>r \<in> set (documents t2). sameContent doc r
          \<longrightarrow> row_content r = DocContent doc \<and> row_updated_at r = dbNow e2"
    by blast
  from d1 in1 r(2)
  have "length (filter (\<lambda>x. (row_content_hash x, row_source x, row_source_id x)
                  = (DocContentHash doc, Source doc, SourceID doc)) (documents t2)) = 1"
    unfolding documentKeys_def by (intro one_of_distinct) simp_all
  then have one: "length (filter (sameContent doc) (documents t2)) = 1"
    by (simp add: sameContent_def [abs_def])
  from r d1 one
  show "\<exists>t2. StoreDocument e2 t1 doc = (None, t2)
                \<and> length (filter (sameContent doc) (documents t2)) = 1
                \<and> distinct (documentKeys t2)
                \<and> map row_id (documents t2) = map row_id (documents t1)
                \<and> (\<forall>r \<in> set (documents t2). sameContent doc r
                      \<longrightarrow> row_content r = DocContent doc \<and> row_updated_at r = dbNow e2)"
    by auto
qed

lemma hello_stored:
  "StoreMessage exampleEnv emptyStorage helloMessage =
     (Inr (helloMessage\<lparr>ID := 7, CreatedAt := 100, UpdatedAt := 100\<rparr>, True),
      \<lparr>slack_messages = [helloMessage\<lparr>ID := 7, CreatedAt := 100, UpdatedAt := 100\<rparr>],
       slack_thread_embeddings = []\<rparr>)"
  by (simp add: StoreMessage_def exampleEnv_def emptyStorage_def helloMessage_def
    exampleMessage_def Let_def)

lemma hello_document_stored:
  "fst (StoreDocument exampleEnv emptyDocuments helloDocument) = None"
  by (simp add: StoreDocument_def exampleEnv_def emptyDocuments_def helloDocument_def)

theorem upsert_twice_one_row_witness:
  "fst (StoreMessage exampleEnv emptyStorage helloMessage)
     = Inr (helloMessage\<lparr>ID := 7, CreatedAt := 100, UpdatedAt := 100\<rparr>, True)
   \<and> fst (StoreMessage laterEnv (snd (StoreMessage exampleEnv emptyStorage helloMessage)) helloMessage)
     = Inr (helloMessage\<lparr>ID := 7, CreatedAt := 100, UpdatedAt := 200\<rparr>, False)
   \<and> length (filter (sameMessage helloMessage)
        (slack_messages (snd (StoreMessage laterEnv
           (snd (StoreMessage exampleEnv emptyStorage helloMessage)) helloMessage)))) = 1
   \<and> fst (StoreDocument exampleEnv emptyDocuments helloDocument) = None
   \<and> fst (StoreDocument laterEnv (snd (StoreDocument exampleEnv emptyDocuments helloDocument))
        helloDocument) = None
   \<and> length (filter (sameContent helloDocument)
        (documents (snd (StoreDocument laterEnv
           (snd (StoreDocument exampleEnv emptyDocuments helloDocument)) helloDocument)))) = 1"
proof -
  let ?s1 = "snd (StoreMessage exampleEnv emptyStorage helloMessage)"
  let ?t1 = "snd (StoreDocument exampleEnv emptyDocuments helloDocument)"
  have m1: "distinct (messageKeys emptyStorage)"
    by (simp add: messageKeys_def emptyStorage_def)
  have m2: "StoreMessage exampleEnv emptyStorage helloMessage
          = (Inr (helloMessage\<lparr>ID := 7, CreatedAt := 100, UpdatedAt := 100\<rparr>, True), ?s1)"
    by (simp only: hello_stored snd_conv)
  have m3: "\<not> dbRefuses laterEnv (UpsertMessage (ChannelID helloMessage) (MessageTimestamp helloMessage))"
    by (simp add: laterEnv_def exampleEnv_def)
  note m = m1 m2 m3
  have d1: "distinct (documentKeys emptyDocuments)"
    by (simp add: documentKeys_def emptyDocuments_def)
  have d2: "StoreDocument exampleEnv emptyDocuments helloDocument = (None, ?t1)"
    by (simp only: prod_eq_iff hello_document_stored fst_conv snd_conv simp_thms)
  have d3: "\<not> dbRefuses laterEnv (UpsertDocument (DocID helloDocument))"
    by (simp add: laterEnv_def exampleEnv_def)
  note d = d1 d2 d3
  note inst = upsert_twice_one_row [of emptyStorage exampleEnv helloMessage
      "helloMessage\<lparr>ID := 7, CreatedAt := 100, UpdatedAt := 100\<rparr>" True ?s1 laterEnv
      emptyDocuments helloDocument ?t1]
  from inst m obtain m2 s2 where
    a: "StoreMessage laterEnv ?s1 helloMessage = (Inr (m2, False), s2)"
      "length (filter (sameMessage helloMessage) (slack_messages s2)) = 1"
    by blast
  from inst d obtain t2 where
    b: "StoreDocument laterEnv ?t1 helloDocument = (None, t2)"
      "length (filter (sameContent helloDocument) (documents t2)) = 1"
    by blast
  have c: "fst (StoreMessage laterEnv ?s1 helloMessage)
     = Inr (helloMessage\<lparr>ID := 7, CreatedAt := 100, UpdatedAt := 200\<rparr>, False)"
    unfolding hello_stored snd_conv
    by (simp add: StoreMessage_def exampleEnv_def laterEnv_def helloMessage_def
      exampleMessage_def Let_def sameMessage_def)
  from a b c show ?thesis
    by (simp add: hello_stored hello_document_stored)
qed


section \<open>Edits\<close>

lemma StoreMessage_invalidates:
  assumes "(ChannelID msg, MessageTimestamp msg) \<in> set (messageKeys s)"
    and "\<not> dbRefuses e (UpsertMessage (ChannelID msg) (MessageTimestamp msg))"
    and "\<not> dbRefuses e (DeleteThreadEmbeddings (ThreadID msg))"
  shows "\<exists>m s'. StoreMessage e s msg = (Inr (m, False), s')
           \<and> Content m = Content msg
           \<and> (\<forall>r \<in> set (slack_messages s'). sameMessage msg r \<longrightarrow> Content r = Content msg)
           \<and> ThreadID msg \<notin> set (map te_thread_id (slack_thread_embeddings s'))"
proof -
  let ?msg = "msg\<lparr>ContentHash := sha256hex e (Content msg)\<rparr>"
  have k: "sameMessage ?msg = sameMessage msg"
    by (rule ext) (simp add: sameMessage_def)
  from assms(1) obtain r where r: "find (sameMessage msg) (slack_messages s) = Some r"
    using find_None_keys [of msg s] by (cases "find (sameMessage msg) (slack_messages s)") auto
  show ?thesis
    using assms(2,3) r unfolding StoreMessage_def Let_def k
    by auto
qed

lemma StoreDocument_rejects:
  assumes "DocID doc \<in> set (map row_id (documents s))"
    and "(DocContentHash doc, Source doc, SourceID doc) \<notin> set (documentKeys s)"
  shows "fst (StoreDocument e s doc) \<noteq> None" "snd (StoreDocument e s doc) = s"
  using assms unfolding StoreDocument_def find_None_documentKeys
  by auto

text \<open>
  Claim C3. What the two stores do when content arrives under an identity that is already
  stored. \<open>StoreMessage\<close> (unless the database refuses a statement) returns
  \<open>wasInserted = false\<close>, leaves the new content in the row, and leaves no embedding
  of the message's thread. \<open>StoreDocument\<close> does not: when the table holds the
  document's \<open>id\<close> and no row has its \<open>(content_hash, source, source_id)\<close>, which is
  the case whenever the content (hence the hash) has changed, the call returns an error and
  the table is left as it was, old content and old vector included.
\<close>

theorem edit_invalidates_embedding:
  "((ChannelID msg, MessageTimestamp msg) \<in> set (messageKeys s)
      \<and> \<not> dbRefuses e (UpsertMessage (ChannelID msg) (MessageTimestamp msg))
      \<and> \<not> dbRefuses e (DeleteThreadEmbeddings (ThreadID msg))
    \<longrightarrow> (\<exists>m s'. StoreMessage e s msg = (Inr (m, False), s')
           \<and> Content m = Content msg
           \<and> (\<forall>r \<in> set (slack_messages s'). sameMessage msg r \<longrightarrow> Content r = Content msg)
           \<and> ThreadID msg \<notin> set (map te_thread_id (slack_thread_embeddings s'))))
   \<and> (DocID doc \<in> set (map row_id (documents t))
        \<and> (DocContentHash doc, Source doc, SourceID doc) \<notin> set (documentKeys t)
      \<longrightarrow> fst (StoreDocument e t doc) \<noteq> None \<and> snd (StoreDocument e t doc) = t)"
  using StoreMessage_invalidates [of msg s e] StoreDocument_rejects [of doc t e]
  by blast

lemma helloStorage_rows:
  "helloStorage =
     \<lparr>slack_messages = [helloMessage\<lparr>ID := 7, CreatedAt := 100, UpdatedAt := 100\<rparr>],
      slack_thread_embeddings =
        [\<lparr>te_id = 7, te_thread_id = ''100.000100'', te_chunk_index = 0,
          te_content_hash = ''sha256:hello'', te_embedding = Some unitVector,
          te_created_at = 100\<rparr>]\<rparr>"
  unfolding helloStorage_def hello_stored snd_conv
  by (simp add: StoreThreadEmbedding_def unitVector_length exampleEnv_def)

lemma greeting_trim: "TrimSpace ''hello there'' = ''hello there''"
  by code_simp

lemma greeting_embedding:
  "GenerateEmbedding fullSizeEnv ''hello there'' = (Inr unitVector, [''hello there''])"
  unfolding GenerateEmbedding_def Let_def greeting_trim
  by (simp add: truncateText_short fullSizeEnv_def exampleEnv_def)

lemma greetingDocuments_rows:
  "greetingDocuments =
     \<lparr>documents =
        [\<lparr>row_id = ''slack_C1_100.000100'', row_content = ''hello there'',
          row_source = ''slack'', row_source_id = ''100.000100'', row_title = [],
          row_channel_id = ''C1'', row_post_id = [], row_user_id = ''U1'', row_user_name = [],
          row_timestamp = 100, row_content_hash = ''sha256:hello there'',
          row_embedding = Some unitVector, row_created_at = 100, row_updated_at = 100\<rparr>]\<rparr>"
proof -
  have a: "snd (StoreDocument fullSizeEnv emptyDocuments greetingDocument) =
     \<lparr>documents =
        [\<lparr>row_id = ''slack_C1_100.000100'', row_content = ''hello there'',
          row_source = ''slack'', row_source_id = ''100.000100'', row_title = [],
          row_channel_id = ''C1'', row_post_id = [], row_user_id = ''U1'', row_user_name = [],
          row_timestamp = 100, row_content_hash = ''sha256:hello there'',
          row_embedding = None, row_created_at = 100, row_updated_at = 100\<rparr>]\<rparr>"
    by (simp add: StoreDocument_def fullSizeEnv_def exampleEnv_def emptyDocuments_def
      greetingDocument_def helloDocument_def)
  have b: "\<not> dbRefuses fullSizeEnv st" "dbNow fullSizeEnv = 100" for st
    by (simp_all add: fullSizeEnv_def exampleEnv_def)
  show ?thesis
    unfolding greetingDocuments_def a
    by (simp add: processBatch_def GetDocumentsWithoutEmbeddings_def processDocument_def
      scanDocument_def greeting_trim greeting_embedding UpdateEmbedding_def unitVector_length
      b Let_def)
qed

theorem edit_invalidates_embedding_witness:
  "fst (StoreMessage laterEnv helloStorage editedMessage)
     = Inr (editedMessage\<lparr>ID := 7, CreatedAt := 100, UpdatedAt := 200\<rparr>, False)
   \<and> map Content (slack_messages (snd (StoreMessage laterEnv helloStorage editedMessage)))
     = [''hello world, much longer now'']
   \<and> map te_thread_id (slack_thread_embeddings helloStorage) = [ThreadID editedMessage]
   \<and> ThreadID editedMessage
       \<notin> set (map te_thread_id
                (slack_thread_embeddings (snd (StoreMessage laterEnv helloStorage editedMessage))))
   \<and> fst (StoreDocument laterEnv greetingDocuments editedDocument) \<noteq> None
   \<and> snd (StoreDocument laterEnv greetingDocuments editedDocument) = greetingDocuments
   \<and> map row_content (documents greetingDocuments) = [''hello there'']
   \<and> map row_embedding (documents greetingDocuments) = [Some unitVector]"
proof -
  have m1: "(ChannelID editedMessage, MessageTimestamp editedMessage) \<in> set (messageKeys helloStorage)"
    by (simp add: helloStorage_rows messageKeys_def editedMessage_def helloMessage_def
      exampleMessage_def)
  have m2: "\<not> dbRefuses laterEnv (UpsertMessage (ChannelID editedMessage) (MessageTimestamp editedMessage))"
    by (simp add: laterEnv_def exampleEnv_def)
  have m3: "\<not> dbRefuses laterEnv (DeleteThreadEmbeddings (ThreadID editedMessage))"
    by (simp add: laterEnv_def exampleEnv_def)
  have d1: "DocID editedDocument \<in> set (map row_id (documents greetingDocuments))"
    by (simp add: greetingDocuments_rows editedDocument_def helloDocument_def)
  have d2: "(DocContentHash editedDocument, Source editedDocument, SourceID editedDocument)
      \<notin> set (documentKeys greetingDocuments)"
    by (simp add: greetingDocuments_rows documentKeys_def editedDocument_def helloDocument_def)
  note inst = edit_invalidates_embedding [of editedMessage helloStorage laterEnv
      editedDocument greetingDocuments]
  from inst m1 m2 m3 obtain m s' where
    a: "StoreMessage laterEnv helloStorage editedMessage = (Inr (m, False), s')"
      "ThreadID editedMessage \<notin> set (map te_thread_id (slack_thread_embeddings s'))"
    by blast
  from inst d1 d2 have
    b: "fst (StoreDocument laterEnv greetingDocuments editedDocument) \<noteq> None"
      "snd (StoreDocument laterEnv greetingDocuments editedDocument) = greetingDocuments"
    by blast+
  have c: "StoreMessage laterEnv helloStorage editedMessage =
     (Inr (editedMessage\<lparr>ID := 7, CreatedAt := 100, UpdatedAt := 200\<rparr>, False),
      \<lparr>slack_messages =
         [helloMessage\<lparr>ID := 7, CreatedAt := 100, Content := ''hello world, much longer now'',
            ContentHash := ''sha256:hello world, much longer now'', UpdatedAt := 200\<rparr>],
       slack_thread_embeddings = []\<rparr>)"
    unfolding helloStorage_rows
    by (simp add: StoreMessage_def exampleEnv_def laterEnv_def helloMessage_def editedMessage_def
      exampleMessage_def Let_def sameMessage_def)
  have s1: "fst (StoreMessage laterEnv helloStorage editedMessage)
     = Inr (editedMessage\<lparr>ID := 7, CreatedAt := 100, UpdatedAt := 200\<rparr>, False)"
    by (simp only: c fst_conv)
  have s2: "map Content (slack_messages (snd (StoreMessage laterEnv helloStorage editedMessage)))
     = [''hello world, much longer now'']"
    by (simp only: c snd_conv) simp
  have s0: "map te_thread_id (slack_thread_embeddings helloStorage) = [ThreadID editedMessage]"
    by (simp add: helloStorage_rows editedMessage_def exampleMessage_def)
  from a have s3: "ThreadID editedMessage
       \<notin> set (map te_thread_id
                (slack_thread_embeddings (snd (StoreMessage laterEnv helloStorage editedMessage))))"
    by simp
  have r1: "map row_content (documents greetingDocuments) = [''hello there'']"
    by (simp add: greetingDocuments_rows)
  have r2: "map row_embedding (documents greetingDocuments) = [Some unitVector]"
    by (simp add: greetingDocuments_rows)
  from s1 s2 s0 s3 b r1 r2 show ?thesis
    by (intro conjI)
qed

section \<open>The thread embedding job\<close>

lemma Contains_decompose: "Contains s p \<Longrightarrow> \<exists>a b. s = a @ p @ b"
  unfolding Contains_def
proof (induction s)
  case Nil
  then show ?case by (simp split: if_splits)
next
  case (Cons c s)
  show ?case
  proof (cases "HasPrefix (c # s) p")
    case True
    then have "c # s = [] @ p @ drop (length p) (c # s)"
      unfolding HasPrefix_def by (metis append_Nil append_take_drop_id)
    then show ?thesis by blast
  next
    case False
    with Cons.prems have "Index s p \<noteq> None" by simp
    from Cons.IH [OF this] obtain a b where "s = a @ p @ b" by blast
    then have "c # s = (c # a) @ p @ b" by simp
    then show ?thesis by blast
  qed
qed

lemma Contains_compose: "Contains (a @ p @ b) p"
  unfolding Contains_def
proof (induction a)
  case Nil
  show ?case
  proof (cases "p @ b")
    case Nil then show ?thesis by simp
  next
    case (Cons c s)
    have "HasPrefix (p @ b) p" by (simp add: HasPrefix_def)
    with Cons show ?thesis by simp
  qed
next
  case (Cons c a)
  then show ?case by simp
qed

lemma ToLower_ascii:
  "list_all isASCII p \<Longrightarrow> ToLower tbl (p @ b) = map lowerASCII p @ ToLower tbl b"
  by (induction p) simp_all

lemma dropWhile_append_stop:
  "ys \<noteq> [] \<Longrightarrow> \<not> P (hd ys) \<Longrightarrow> dropWhile P (xs @ ys) = dropWhile P xs @ ys"
  by (induction xs) (auto simp add: neq_Nil_conv)

lemma ToLower_decompose:
  assumes "p \<noteq> []" "list_all isASCII p"
  shows "\<exists>x. ToLower tbl (a @ p @ b) = x @ map lowerASCII p @ ToLower tbl b"
proof (induction a rule: length_induct)
  case (1 a)
  show ?case
  proof (cases a)
    case Nil
    with assms(2) show ?thesis by (simp add: ToLower_ascii)
  next
    case (Cons c a')
    show ?thesis
    proof (cases "isASCII c")
      case True
      from 1 Cons obtain x where "ToLower tbl (a' @ p @ b) = x @ map lowerASCII p @ ToLower tbl b"
        by auto
      with True Cons have "ToLower tbl (a @ p @ b) = (lowerASCII c # x) @ map lowerASCII p @ ToLower tbl b"
        by simp
      then show ?thesis by blast
    next
      case False
      let ?d = "dropWhile (\<lambda>d. \<not> isASCII d) a'"
      from assms have stop: "p @ b \<noteq> []" "\<not> \<not> isASCII (hd (p @ b))"
        by (auto simp add: neq_Nil_conv)
      have "dropWhile (\<lambda>d. \<not> isASCII d) (a' @ p @ b) = ?d @ p @ b"
        using dropWhile_append_stop [of "p @ b" "\<lambda>d. \<not> isASCII d" a'] stop by simp
      with False Cons
      have eq: "ToLower tbl (a @ p @ b)
          = tbl (takeWhile (\<lambda>d. \<not> isASCII d) (c # a' @ p @ b)) @ ToLower tbl (?d @ p @ b)"
        by simp
      have "length ?d < length a" using Cons by (simp add: le_imp_less_Suc length_dropWhile_le)
      with 1 obtain x where "ToLower tbl (?d @ p @ b) = x @ map lowerASCII p @ ToLower tbl b"
        by blast
      with eq have "ToLower tbl (a @ p @ b)
          = (tbl (takeWhile (\<lambda>d. \<not> isASCII d) (c # a' @ p @ b)) @ x) @ map lowerASCII p @ ToLower tbl b"
        by simp
      then show ?thesis by blast
    qed
  qed
qed

lemma Contains_ToLower:
  assumes "Contains s p" "p \<noteq> []" "list_all isASCII p" "map lowerASCII p = p"
  shows "Contains (ToLower tbl s) p"
proof -
  from Contains_decompose [OF assms(1)] obtain a b where s: "s = a @ p @ b" by blast
  from ToLower_decompose [OF assms(2,3), of tbl a b] assms(4)
  obtain x where "ToLower tbl (a @ p @ b) = x @ p @ ToLower tbl b" by auto
  with s show ?thesis by (simp add: Contains_compose)
qed

lemma Contains_append:
  assumes "Contains s p"
  shows "Contains (a @ s @ b) p"
proof -
  from Contains_decompose [OF assms] obtain c d where "s = c @ p @ d" by blast
  then have "a @ s @ b = (a @ c) @ p @ (d @ b)" by simp
  then show ?thesis by (simp only: Contains_compose)
qed

lemma Join_head: "\<exists>r. Join (x # xs) sep = x @ r"
  by (cases xs) auto

lemma threadTestPatterns_lower:
  "p \<in> set threadTestPatterns \<Longrightarrow> p \<noteq> [] \<and> list_all isASCII p \<and> map lowerASCII p = p"
  by (auto simp add: threadTestPatterns_def isASCII_def lowerASCII_def)

lemma buildThreadContent_Contains:
  assumes "Contains (Content m) p"
  shows "Contains (buildThreadContent e (m # ms)) p"
proof -
  let ?f = "\<lambda>msg. ''['' @ formatTimestamp e (MessageTimestamp msg) @ ''] '' @ UserName msg
                        @ '': '' @ Content msg"
  obtain r where "Join (?f m # map ?f ms) [CHR 0x0A] = ?f m @ r"
    using Join_head by blast
  then have eq: "buildThreadContent e (m # ms)
      = (''['' @ formatTimestamp e (MessageTimestamp m) @ ''] '' @ UserName m @ '': '')
          @ Content m @ r"
    by (simp add: buildThreadContent_def)
  show ?thesis
    unfolding eq by (rule Contains_append [OF assms])
qed

lemma low_quality_content:
  assumes "list_ex (Contains content) threadTestPatterns"
  shows "\<not> threadIsQualityContent e content"
proof -
  from assms obtain p where p: "p \<in> set threadTestPatterns" "Contains content p"
    by (auto simp add: list_ex_iff)
  from threadTestPatterns_lower [OF p(1)] p(2)
  have "Contains (ToLower (unicodeLower e) content) p"
    by (intro Contains_ToLower) simp_all
  with p(1) have "list_ex (Contains (ToLower (unicodeLower e) content)) threadTestPatterns"
    by (auto simp add: list_ex_iff)
  then show ?thesis by (simp add: threadIsQualityContent_def)
qed

lemma processThread_low_quality:
  assumes "\<forall>m \<in> set (slack_messages s). list_ex (Contains (Content m)) threadTestPatterns"
  shows "snd (processThread e s threadID) = (s, [])"
proof (cases "GetMessagesInThread e s threadID")
  case (Inl err)
  then show ?thesis by (simp add: processThread_def)
next
  case (Inr messages)
  show ?thesis
  proof (cases messages)
    case Nil
    with Inr show ?thesis by (simp add: processThread_def)
  next
    case (Cons m ms)
    from Inr have "set messages \<subseteq> set (slack_messages s)"
      by (auto simp add: GetMessagesInThread_def split: if_splits)
    with Cons assms have "list_ex (Contains (Content m)) threadTestPatterns" by auto
    then obtain p where p: "p \<in> set threadTestPatterns" "Contains (Content m) p"
      by (auto simp add: list_ex_iff)
    from buildThreadContent_Contains [OF p(2), of e ms] p(1)
    have "list_ex (Contains (buildThreadContent e (m # ms))) threadTestPatterns"
      by (auto simp add: list_ex_iff)
    then have "\<not> threadIsQualityContent e (buildThreadContent e messages)"
      unfolding Cons by (rule low_quality_content)
    with Inr Cons show ?thesis by (simp add: processThread_def Let_def)
  qed
qed

lemma processThreads_low_quality:
  assumes "\<forall>m \<in> set (slack_messages s). list_ex (Contains (Content m)) threadTestPatterns"
  shows "processThreads e s threadIDs = (s, [])"
proof (induction threadIDs)
  case Nil
  show ?case by simp
next
  case (Cons t ts)
  from processThread_low_quality [OF assms, of e t]
  obtain err where "processThread e s t = (err, s, [])"
    by (cases "processThread e s t") auto
  with Cons show ?case by simp
qed

lemma threadProcessBatch_low_quality:
  assumes "\<forall>m \<in> set (slack_messages s). list_ex (Contains (Content m)) threadTestPatterns"
  shows "snd (threadProcessBatch e batchSize s) = (s, [])"
  by (simp add: threadProcessBatch_def processThreads_low_quality [OF assms] split: sum.splits)

lemma threadTicks_low_quality:
  assumes "\<forall>m \<in> set (slack_messages s). list_ex (Contains (Content m)) threadTestPatterns"
  shows "threadTicks es batchSize s = s"
proof (induction es)
  case Nil
  show ?case by simp
next
  case (Cons e es)
  then show ?case by (simp add: threadProcessBatch_low_quality [OF assms])
qed

text \<open>
  Claim C2. The backlog of the thread job does not drain when the threads are of low
  quality. In a store in which every message holds one of the test patterns of
  \<open>isQualityContent\<close>, a tick of \<open>processBatch\<close> calls the embedding provider for no
  thread and writes nothing, in every environment and for every batch size: no thread is
  marked, the store after any number of ticks is the store before them, and
  \<open>GetThreadsWithoutEmbeddings\<close> goes on returning what it returned.
\<close>

theorem low_quality_threads_never_marked:
  assumes "\<forall>m \<in> set (slack_messages s). list_ex (Contains (Content m)) threadTestPatterns"
  shows "snd (threadProcessBatch e batchSize s) = (s, [])
    \<and> threadTicks es batchSize s = s
    \<and> GetThreadsWithoutEmbeddings e (threadTicks es batchSize s) limit
        = GetThreadsWithoutEmbeddings e s limit"
  using threadProcessBatch_low_quality [OF assms] threadTicks_low_quality [OF assms]
  by simp

lemma example_Contains:
  "Contains ''Here is an example of the weekly report'' ''example''"
  by code_simp

theorem low_quality_threads_never_marked_witness:
  "threadTicks [exampleEnv, laterEnv, exampleEnv] 10 exampleThread = exampleThread
   \<and> GetThreadsWithoutEmbeddings exampleEnv
        (threadTicks [exampleEnv, laterEnv, exampleEnv] 10 exampleThread) 10
      = Inr [''1700000000.000100'']
   \<and> snd (snd (threadProcessBatch exampleEnv 10 exampleThread)) = []"
proof -
  have h: "\<forall>m \<in> set (slack_messages exampleThread).
      list_ex (Contains (Content m)) threadTestPatterns"
    using example_Contains
    by (simp add: exampleThread_def exampleMessage_def threadTestPatterns_def)
  have f: "GetThreadsWithoutEmbeddings exampleEnv exampleThread 10 = Inr [''1700000000.000100'']"
    by (simp add: GetThreadsWithoutEmbeddings_def exampleEnv_def exampleThread_def
      exampleMessage_def)
  note inst = low_quality_threads_never_marked
    [OF h, of exampleEnv 10 "[exampleEnv, laterEnv, exampleEnv]" 10]
  from inst have t: "threadTicks [exampleEnv, laterEnv, exampleEnv] 10 exampleThread = exampleThread"
    by blast
  from inst have c: "snd (threadProcessBatch exampleEnv 10 exampleThread) = (exampleThread, [])"
    by blast
  have "snd (snd (threadProcessBatch exampleEnv 10 exampleThread)) = []"
    by (simp only: c snd_conv)
  with t f show ?thesis
    by (simp only: simp_thms)
qed


end
